theory Spec2Isabelle
  imports Main "HOL-Library.Word"
begin

unbundle bit_operations_syntax

section \<open>Machine integers and byte streams\<close>

type_synonym u8 = "8 word"
type_synonym u16 = "16 word"
type_synonym u32 = "32 word"
type_synonym u64 = "64 word"

text \<open>
  The snapshot is written with \<^verbatim>\<open>fwrite\<close> and read with \<^verbatim>\<open>fread\<close>/\<^verbatim>\<open>memcpy\<close> of
  the integers' object representation; the format is little-endian.  \<open>to_le k n\<close> are the
  \<open>k\<close> low bytes of \<open>n\<close>, least significant first, and \<open>from_le\<close> reads them back.
\<close>

fun to_le :: "nat \<Rightarrow> nat \<Rightarrow> u8 list" where
  "to_le 0 n = []"
| "to_le (Suc k) n = of_nat (n mod 256) # to_le k (n div 256)"

fun from_le :: "u8 list \<Rightarrow> nat" where
  "from_le [] = 0"
| "from_le (b # bs) = unat b + 256 * from_le bs"

definition le16 :: "u16 \<Rightarrow> u8 list" where
  "le16 w = to_le 2 (unat w)"

definition le32 :: "u32 \<Rightarrow> u8 list" where
  "le32 w = to_le 4 (unat w)"

definition le64 :: "u64 \<Rightarrow> u8 list" where
  "le64 w = to_le 8 (unat w)"

text \<open>
  A file opened for reading is the list of the bytes not yet consumed.
  \<^verbatim>\<open>read_element_from_file(ptr, size, fp)\<close> is \<^verbatim>\<open>fread(ptr, size, 1, fp) == 1\<close>: it
  yields the element and the advanced stream, or fails when fewer than \<open>size\<close> bytes
  are left (and for \<open>size = 0\<close>, where \<^verbatim>\<open>fread\<close> returns 0).
\<close>

type_synonym rfile = "u8 list"

definition read_element_from_file :: "nat \<Rightarrow> rfile \<Rightarrow> (u8 list \<times> rfile) option" where
  "read_element_from_file sz fp =
     (if sz = 0 \<or> length fp < sz then None else Some (take sz fp, drop sz fp))"

text \<open>
  \<^verbatim>\<open>fread(buf, 1, n, fp) != n\<close> as used for the folder and file blocks and for the
  sorted index lists: \<open>n\<close> single bytes, which succeeds for \<open>n = 0\<close>.
\<close>

definition fread_bytes :: "nat \<Rightarrow> rfile \<Rightarrow> (u8 list \<times> rfile) option" where
  "fread_bytes n fp = (if length fp < n then None else Some (take n fp, drop n fp))"

section \<open>Snapshot header\<close>

definition DATABASE_MAJOR_VERSION :: u8 where
  "DATABASE_MAJOR_VERSION = 1"

definition DATABASE_MINOR_VERSION :: u8 where
  "DATABASE_MINOR_VERSION = 0"

definition DATABASE_MAGIC_NUMBER :: "u8 list" where
  "DATABASE_MAGIC_NUMBER = [0x46, 0x53, 0x44, 0x42]"

text \<open>
  \<^verbatim>\<open>load_header\<close>: four magic bytes compared with \<^verbatim>\<open>strcmp\<close> against "FSDB" (the
  buffer is terminated after the fourth byte, and "FSDB" holds no NUL, so the strings
  are equal exactly when the four bytes are), then the major version, which must
  equal \<open>DATABASE_MAJOR_VERSION\<close>, then the minor version, which must not exceed
  \<open>DATABASE_MINOR_VERSION\<close>.  \<open>None\<close> is the C function's \<^verbatim>\<open>false\<close>; \<open>Some fp\<close> is
  \<^verbatim>\<open>true\<close> with the stream positioned after the header.
\<close>

definition load_header :: "rfile \<Rightarrow> rfile option" where
  "load_header fp =
     (case read_element_from_file (length DATABASE_MAGIC_NUMBER) fp of
        None \<Rightarrow> None
      | Some (magic, fp1) \<Rightarrow>
          if magic \<noteq> DATABASE_MAGIC_NUMBER then None
          else (case read_element_from_file 1 fp1 of
                  None \<Rightarrow> None
                | Some (majorver, fp2) \<Rightarrow>
                    if hd majorver \<noteq> DATABASE_MAJOR_VERSION then None
                    else (case read_element_from_file 1 fp2 of
                            None \<Rightarrow> None
                          | Some (minorver, fp3) \<Rightarrow>
                              if hd minorver > DATABASE_MINOR_VERSION then None
                              else Some fp3)))"

section \<open>Database entries\<close>

text \<open>
  \<^verbatim>\<open>FsearchDatabaseEntry\<close> is declared in \<^verbatim>\<open>fsearch_database_entry.h\<close>; the codec and
  the search views reach it through its accessors only.  The record holds the fields
  those accessors read and write.  A name is a C string: the bytes before the
  terminating NUL.  The \<^verbatim>\<open>parent\<close> pointer of an entry always points to a folder of the
  same index; it is kept as the position of that folder in the folder array the entry
  belongs to (\<open>None\<close> is \<^verbatim>\<open>NULL\<close>), the representation the snapshot itself uses.
  \<^verbatim>\<open>off_t\<close> and \<^verbatim>\<open>time_t\<close> are 64-bit; both are kept as their bit patterns.
\<close>

datatype FsearchDatabaseEntryType =
  DATABASE_ENTRY_TYPE_NONE | DATABASE_ENTRY_TYPE_FOLDER | DATABASE_ENTRY_TYPE_FILE

record db_entry =
  e_type :: FsearchDatabaseEntryType
  e_name :: "u8 list"
  e_parent :: "nat option"
  e_size :: u64
  e_mtime :: u64
  e_idx :: u32
  e_db_index :: u16

text \<open>
  \<^verbatim>\<open>darray_get_item\<close> (\<^verbatim>\<open>fsearch_array.h\<close>) yields \<^verbatim>\<open>NULL\<close> for an index outside the
  array, which \<^verbatim>\<open>load_sorted_entries\<close> relies on.  \<^verbatim>\<open>db_entry_get_idx\<close> is applied to
  the result of a parent lookup; an absent entry reads as 0 here, and every theorem
  below applies it to entries that are present.
\<close>

definition darray_get_item :: "'a list \<Rightarrow> nat \<Rightarrow> 'a option" where
  "darray_get_item xs i = (if i < length xs then Some (xs ! i) else None)"

definition db_entry_get_idx :: "db_entry option \<Rightarrow> u32" where
  "db_entry_get_idx e = (case e of None \<Rightarrow> 0 | Some x \<Rightarrow> e_idx x)"

text \<open>
  The two property flags the codec tests live in \<^verbatim>\<open>fsearch_database_index.h\<close>, which is
  not among the sources: their bit masks are parameters of the codec.
\<close>

record property_flag_bits =
  FLAG_SIZE :: u64
  FLAG_MODIFICATION_TIME :: u64

section \<open>Snapshot codec: writing\<close>

text \<open>
  A file opened for writing: the bytes written so far and the room left on the device.
  \<^verbatim>\<open>write_data_to_file\<close> writes nothing and reports nothing for an empty datum, sets
  \<^verbatim>\<open>write_failed\<close> when \<^verbatim>\<open>fwrite\<close> comes back short (\<open>None\<close> here: every caller leaves
  at once and \<^verbatim>\<open>db_file_save\<close> unlinks the file), and otherwise returns the number of
  bytes written.
\<close>

record wfile =
  written :: "u8 list"
  room :: nat

definition write_data_to_file :: "wfile \<Rightarrow> u8 list \<Rightarrow> (nat \<times> wfile) option" where
  "write_data_to_file fp data =
     (if data = [] then Some (0, fp)
      else if room fp < length data then None
      else Some (length data,
                 fp\<lparr>written := written fp @ data, room := room fp - length data\<rparr>))"

definition cstr :: "u8 list \<Rightarrow> u8 list" where
  "cstr bs = takeWhile (\<lambda>b. b \<noteq> 0) bs"

text \<open>\<^verbatim>\<open>g_string_erase(s, pos, -1)\<close>: cut at \<open>pos\<close>; GLib leaves the string alone when
  \<open>pos\<close> is beyond its length.\<close>

definition g_string_erase :: "u8 list \<Rightarrow> nat \<Rightarrow> u8 list" where
  "g_string_erase s pos = (if pos \<le> length s then take pos s else s)"

text \<open>
  \<^verbatim>\<open>get_name_offset\<close>: the \<^verbatim>\<open>uint8_t\<close> counter advances while both strings agree, neither
  has ended, and the counter is below 255.
\<close>

fun get_name_offset_loop :: "u8 list \<Rightarrow> u8 list \<Rightarrow> nat \<Rightarrow> nat" where
  "get_name_offset_loop (a # old) (b # new) offset =
     (if a = b \<and> a \<noteq> 0 \<and> b \<noteq> 0 \<and> offset < 255
      then get_name_offset_loop old new (Suc offset) else offset)"
| "get_name_offset_loop old new offset = offset"

definition get_name_offset :: "u8 list \<Rightarrow> u8 list \<Rightarrow> u8" where
  "get_name_offset old new = of_nat (get_name_offset_loop old new 0)"

text \<open>
  \<^verbatim>\<open>save_entry_super_elements\<close>.  The result is the number of bytes written, the file,
  and the updated \<^verbatim>\<open>previous_entry_name\<close>.  \<^verbatim>\<open>name_len\<close> is the \<^verbatim>\<open>size_t\<close> difference
  \<^verbatim>\<open>new_entry_name->len - name_offset\<close> stored into a \<^verbatim>\<open>uint8_t\<close>.
\<close>

definition save_entry_super_elements ::
  "property_flag_bits \<Rightarrow> wfile \<Rightarrow> u64 \<Rightarrow> db_entry \<Rightarrow> u32 \<Rightarrow> u8 list
     \<Rightarrow> (nat \<times> wfile \<times> u8 list) option" where
  "save_entry_super_elements M fp index_flags entry parent_idx previous_entry_name =
     (let new_entry_name = cstr (e_name entry);
          name_offset = get_name_offset previous_entry_name new_entry_name;
          name_len = (of_nat (length new_entry_name - unat name_offset) :: u8);
          previous' = g_string_erase previous_entry_name (unat name_offset)
                        @ drop (unat name_offset) new_entry_name
      in case write_data_to_file fp [name_offset] of None \<Rightarrow> None
       | Some (n1, fp1) \<Rightarrow>
      (case write_data_to_file fp1 [name_len] of None \<Rightarrow> None
       | Some (n2, fp2) \<Rightarrow>
      (case (if name_len > 0
             then write_data_to_file fp2
                    (take (unat name_len) (drop (unat name_offset) previous'))
             else Some (0, fp2)) of None \<Rightarrow> None
       | Some (n3, fp3) \<Rightarrow>
      (case (if index_flags AND FLAG_SIZE M \<noteq> 0
             then write_data_to_file fp3 (le64 (e_size entry))
             else Some (0, fp3)) of None \<Rightarrow> None
       | Some (n4, fp4) \<Rightarrow>
      (case (if index_flags AND FLAG_MODIFICATION_TIME M \<noteq> 0
             then write_data_to_file fp4 (le64 (e_mtime entry))
             else Some (0, fp4)) of None \<Rightarrow> None
       | Some (n5, fp5) \<Rightarrow>
      (case write_data_to_file fp5 (le32 parent_idx) of None \<Rightarrow> None
       | Some (n6, fp6) \<Rightarrow>
           Some (n1 + n2 + n3 + n4 + n5 + n6, fp6, previous')))))))"

text \<open>\<^verbatim>\<open>update_folder_indices\<close>: every folder's \<open>idx\<close> becomes its position.\<close>

definition update_folder_indices :: "db_entry list \<Rightarrow> db_entry list" where
  "update_folder_indices folders =
     map (\<lambda>(i, folder). folder\<lparr>e_idx := of_nat i\<rparr>) (enumerate 0 folders)"

text \<open>
  \<^verbatim>\<open>save_folders\<close>: per folder the \<^verbatim>\<open>db_index\<close>, then the shared record with
  \<^verbatim>\<open>parent_idx\<close> the parent's \<open>idx\<close>, or the folder's own \<open>idx\<close> when it has no parent.
  The loop runs over the first \<open>num_folders\<close> items of the array (the caller passes
  the array's length); \<open>folders\<close> is what the parent pointers point into.
\<close>

fun save_folders_loop ::
  "property_flag_bits \<Rightarrow> u64 \<Rightarrow> db_entry list \<Rightarrow> db_entry list \<Rightarrow> u8 list \<Rightarrow> wfile \<Rightarrow> nat
     \<Rightarrow> (nat \<times> wfile) option" where
  "save_folders_loop M index_flags folders [] name_prev fp bytes_written =
     Some (bytes_written, fp)"
| "save_folders_loop M index_flags folders (entry # rest) name_prev fp bytes_written =
     (case write_data_to_file fp (le16 (e_db_index entry)) of None \<Rightarrow> None
      | Some (n1, fp1) \<Rightarrow>
          (let parent_idx =
                 (case e_parent entry of
                    Some p \<Rightarrow> db_entry_get_idx (darray_get_item folders p)
                  | None \<Rightarrow> e_idx entry)
           in case save_entry_super_elements M fp1 index_flags entry parent_idx name_prev of
                None \<Rightarrow> None
              | Some (n2, fp2, name_prev') \<Rightarrow>
                  save_folders_loop M index_flags folders rest name_prev' fp2
                    (bytes_written + n1 + n2)))"

definition save_folders ::
  "property_flag_bits \<Rightarrow> wfile \<Rightarrow> u64 \<Rightarrow> db_entry list \<Rightarrow> u32 \<Rightarrow> (nat \<times> wfile) option" where
  "save_folders M fp index_flags folders num_folders =
     save_folders_loop M index_flags folders (take (unat num_folders) folders) [] fp 0"

text \<open>
  \<^verbatim>\<open>save_files\<close>: the file's \<open>idx\<close> is refreshed to its position \<open>i\<close> on the way (the
  refreshed files are part of the result), and \<^verbatim>\<open>parent_idx\<close> is the parent's \<open>idx\<close>.
\<close>

fun save_files_loop ::
  "property_flag_bits \<Rightarrow> u64 \<Rightarrow> db_entry list \<Rightarrow> db_entry list \<Rightarrow> nat \<Rightarrow> u8 list \<Rightarrow> wfile
     \<Rightarrow> nat \<Rightarrow> (nat \<times> wfile \<times> db_entry list) option" where
  "save_files_loop M index_flags folders [] i name_prev fp bytes_written =
     Some (bytes_written, fp, [])"
| "save_files_loop M index_flags folders (entry # rest) i name_prev fp bytes_written =
     (let entry' = entry\<lparr>e_idx := of_nat i\<rparr>;
          parent_idx =
            db_entry_get_idx
              (case e_parent entry' of Some p \<Rightarrow> darray_get_item folders p | None \<Rightarrow> None)
      in case save_entry_super_elements M fp index_flags entry' parent_idx name_prev of
           None \<Rightarrow> None
         | Some (n, fp1, name_prev') \<Rightarrow>
             (case save_files_loop M index_flags folders rest (Suc i) name_prev' fp1
                     (bytes_written + n) of
                None \<Rightarrow> None
              | Some (bytes, fp2, rest') \<Rightarrow> Some (bytes, fp2, entry' # rest')))"

definition save_files ::
  "property_flag_bits \<Rightarrow> wfile \<Rightarrow> u64 \<Rightarrow> db_entry list \<Rightarrow> db_entry list \<Rightarrow> u32
     \<Rightarrow> (nat \<times> wfile \<times> db_entry list) option" where
  "save_files M fp index_flags folders files num_files =
     (case save_files_loop M index_flags folders (take (unat num_files) files) 0 [] fp 0 of
        None \<Rightarrow> None
      | Some (bytes, fp', files') \<Rightarrow> Some (bytes, fp', files' @ drop (unat num_files) files))"

section \<open>Snapshot codec: reading\<close>

text \<open>
  The folder and file blocks are read into a buffer and decoded from memory without
  bounds checks.  A read that would leave the buffer is undefined in C; here it is
  \<open>None\<close>, which the callers turn into \<open>ReadOutsideBuffer\<close>, apart from \<open>LoadFailed\<close>, the
  C functions' \<^verbatim>\<open>false\<close>.
\<close>

datatype 'a load_result = Loaded 'a | LoadFailed | ReadOutsideBuffer

definition copy_bytes_and_return_new_src :: "u8 list \<Rightarrow> nat \<Rightarrow> (u8 list \<times> u8 list) option" where
  "copy_bytes_and_return_new_src src len =
     (if length src < len then None else Some (take len src, drop len src))"

definition load_entry_super_elements_from_memory ::
  "property_flag_bits \<Rightarrow> u8 list \<Rightarrow> u64 \<Rightarrow> db_entry \<Rightarrow> u8 list
     \<Rightarrow> (u8 list \<times> db_entry \<times> u8 list) option" where
  "load_entry_super_elements_from_memory M data_block index_flags entry previous_entry_name =
     (case data_block of [] \<Rightarrow> None
      | name_offset # d1 \<Rightarrow>
     (case d1 of [] \<Rightarrow> None
      | name_len # d2 \<Rightarrow>
     (let prev1 = g_string_erase previous_entry_name (unat name_offset)
      in case (if name_len > 0 then copy_bytes_and_return_new_src d2 (unat name_len)
               else Some ([], d2)) of None \<Rightarrow> None
       | Some (name, d3) \<Rightarrow>
     (let prev2 = prev1 @ cstr name;
          entry1 = entry\<lparr>e_name := prev2\<rparr>
      in case (if index_flags AND FLAG_SIZE M \<noteq> 0
               then (case copy_bytes_and_return_new_src d3 8 of None \<Rightarrow> None
                     | Some (bs, d) \<Rightarrow> Some (entry1\<lparr>e_size := of_nat (from_le bs)\<rparr>, d))
               else Some (entry1, d3)) of None \<Rightarrow> None
       | Some (entry2, d4) \<Rightarrow>
     (case (if index_flags AND FLAG_MODIFICATION_TIME M \<noteq> 0
            then (case copy_bytes_and_return_new_src d4 8 of None \<Rightarrow> None
                  | Some (bs, d) \<Rightarrow> Some (entry2\<lparr>e_mtime := of_nat (from_le bs)\<rparr>, d))
            else Some (entry2, d4)) of None \<Rightarrow> None
       | Some (entry3, d5) \<Rightarrow> Some (d5, entry3, prev2))))))"

text \<open>
  The loop of \<^verbatim>\<open>load_folders\<close> over the entries allocated in advance; \<open>n\<close> is the
  length of the folder array, against which \<^verbatim>\<open>darray_get_item(folders, parent_idx)\<close>
  is resolved.  A \<^verbatim>\<open>parent_idx\<close> equal to the folder's own \<open>idx\<close> marks a root.
\<close>

fun load_folders_loop ::
  "property_flag_bits \<Rightarrow> u64 \<Rightarrow> nat \<Rightarrow> db_entry list \<Rightarrow> u8 list \<Rightarrow> u8 list
     \<Rightarrow> (u8 list \<times> db_entry list) option" where
  "load_folders_loop M index_flags n [] fb previous_entry_name = Some (fb, [])"
| "load_folders_loop M index_flags n (entry # rest) fb previous_entry_name =
     (case copy_bytes_and_return_new_src fb 2 of None \<Rightarrow> None
      | Some (db_index, fb1) \<Rightarrow>
     (case load_entry_super_elements_from_memory M fb1 index_flags entry previous_entry_name of
        None \<Rightarrow> None
      | Some (fb2, entry1, prev1) \<Rightarrow>
     (case copy_bytes_and_return_new_src fb2 4 of None \<Rightarrow> None
      | Some (pbytes, fb3) \<Rightarrow>
     (let parent_idx = (of_nat (from_le pbytes) :: u32);
          entry2 =
            (if parent_idx \<noteq> e_idx entry1
             then entry1\<lparr>e_parent :=
                    (if unat parent_idx < n then Some (unat parent_idx) else None)\<rparr>
             else entry1\<lparr>e_parent := None\<rparr>)
      in case load_folders_loop M index_flags n rest fb3 prev1 of None \<Rightarrow> None
         | Some (fb', loaded) \<Rightarrow> Some (fb', entry2 # loaded)))))"

definition load_folders ::
  "property_flag_bits \<Rightarrow> rfile \<Rightarrow> u64 \<Rightarrow> db_entry list \<Rightarrow> u32 \<Rightarrow> u64
     \<Rightarrow> (db_entry list \<times> rfile) load_result" where
  "load_folders M fp index_flags folders num_folders folder_block_size =
     (case fread_bytes (unat folder_block_size) fp of
        None \<Rightarrow> LoadFailed
      | Some (block, fp') \<Rightarrow>
          (let folder_block = block @ [0]
           in case load_folders_loop M index_flags (length folders)
                     (take (unat num_folders) folders) folder_block [] of
                None \<Rightarrow> ReadOutsideBuffer
              | Some (fb, loaded) \<Rightarrow>
                  if length folder_block - length fb \<noteq> unat folder_block_size then LoadFailed
                  else Loaded (loaded @ drop (unat num_folders) folders, fp')))"

text \<open>
  \<^verbatim>\<open>load_files\<close> allocates each file entry from the pool (\<open>blank\<close> is what
  \<^verbatim>\<open>fsearch_memory_pool_malloc\<close> hands out), sets its type and \<open>idx\<close>, decodes the shared
  record and resolves the parent in the folder array.
\<close>

fun load_files_loop ::
  "property_flag_bits \<Rightarrow> u64 \<Rightarrow> db_entry \<Rightarrow> nat \<Rightarrow> nat \<Rightarrow> nat \<Rightarrow> u8 list \<Rightarrow> u8 list
     \<Rightarrow> (u8 list \<times> db_entry list) option" where
  "load_files_loop M index_flags blank n 0 i fb previous_entry_name = Some (fb, [])"
| "load_files_loop M index_flags blank n (Suc k) i fb previous_entry_name =
     (let entry = blank\<lparr>e_type := DATABASE_ENTRY_TYPE_FILE, e_idx := of_nat i\<rparr>
      in case load_entry_super_elements_from_memory M fb index_flags entry previous_entry_name of
           None \<Rightarrow> None
         | Some (fb1, entry1, prev1) \<Rightarrow>
      (case copy_bytes_and_return_new_src fb1 4 of None \<Rightarrow> None
       | Some (pbytes, fb2) \<Rightarrow>
      (let parent_idx = (of_nat (from_le pbytes) :: u32);
           entry2 = entry1\<lparr>e_parent :=
                      (if unat parent_idx < n then Some (unat parent_idx) else None)\<rparr>
       in case load_files_loop M index_flags blank n k (Suc i) fb2 prev1 of None \<Rightarrow> None
          | Some (fb', loaded) \<Rightarrow> Some (fb', entry2 # loaded))))"

definition load_files ::
  "property_flag_bits \<Rightarrow> rfile \<Rightarrow> u64 \<Rightarrow> db_entry \<Rightarrow> db_entry list \<Rightarrow> db_entry list \<Rightarrow> u32
     \<Rightarrow> u64 \<Rightarrow> (db_entry list \<times> rfile) load_result" where
  "load_files M fp index_flags blank folders files num_files file_block_size =
     (case fread_bytes (unat file_block_size) fp of
        None \<Rightarrow> LoadFailed
      | Some (block, fp') \<Rightarrow>
          (let file_block = block @ [0]
           in case load_files_loop M index_flags blank (length folders) (unat num_files) 0
                     file_block [] of
                None \<Rightarrow> ReadOutsideBuffer
              | Some (fb, loaded) \<Rightarrow>
                  if length file_block - length fb \<noteq> unat file_block_size then LoadFailed
                  else Loaded (files @ loaded, fp')))"

text \<open>
  The folder entries \<^verbatim>\<open>db_file_load\<close> allocates before decoding, so that a
  \<^verbatim>\<open>parent_idx\<close> can refer forward.
\<close>

definition preallocate_folders :: "db_entry \<Rightarrow> u32 \<Rightarrow> db_entry list" where
  "preallocate_folders blank num_folders =
     map (\<lambda>i. blank\<lparr>e_idx := of_nat i, e_type := DATABASE_ENTRY_TYPE_FOLDER, e_parent := None\<rparr>)
       [0..<unat num_folders]"

subsection \<open>What the decoder leaves in an entry\<close>

text \<open>
  Three abbreviations used to state the round trip: the \<^verbatim>\<open>parent_idx\<close> that
  \<^verbatim>\<open>save_folders\<close> writes for a folder, and the entry that decoding the record of \<open>e\<close>
  leaves in the slot \<open>p\<close> (a folder allocated in advance, or a file fresh from the pool).
\<close>

definition written_parent_idx :: "db_entry list \<Rightarrow> db_entry \<Rightarrow> u32" where
  "written_parent_idx folders e =
     (case e_parent e of Some q \<Rightarrow> db_entry_get_idx (darray_get_item folders q)
      | None \<Rightarrow> e_idx e)"

definition decoded_super :: "property_flag_bits \<Rightarrow> u64 \<Rightarrow> db_entry \<Rightarrow> db_entry \<Rightarrow> db_entry" where
  "decoded_super M fl e p =
     p\<lparr>e_name := e_name e,
       e_size := (if fl AND FLAG_SIZE M \<noteq> 0 then e_size e else e_size p),
       e_mtime := (if fl AND FLAG_MODIFICATION_TIME M \<noteq> 0 then e_mtime e else e_mtime p)\<rparr>"

definition decoded_folder ::
  "property_flag_bits \<Rightarrow> u64 \<Rightarrow> db_entry list \<Rightarrow> nat \<Rightarrow> db_entry \<Rightarrow> db_entry \<Rightarrow> db_entry" where
  "decoded_folder M fl folders N e p =
     (decoded_super M fl e p)\<lparr>e_parent :=
        (if written_parent_idx folders e \<noteq> e_idx p \<and> unat (written_parent_idx folders e) < N
         then Some (unat (written_parent_idx folders e)) else None)\<rparr>"

definition decoded_file ::
  "property_flag_bits \<Rightarrow> u64 \<Rightarrow> db_entry \<Rightarrow> db_entry list \<Rightarrow> nat \<Rightarrow> db_entry \<Rightarrow> nat
     \<Rightarrow> db_entry" where
  "decoded_file M fl blank folders N e i =
     (decoded_super M fl e (blank\<lparr>e_type := DATABASE_ENTRY_TYPE_FILE, e_idx := of_nat i\<rparr>))
       \<lparr>e_parent :=
          (if unat (db_entry_get_idx
                      (case e_parent e of Some p \<Rightarrow> darray_get_item folders p | None \<Rightarrow> None)) < N
           then Some (unat (db_entry_get_idx
                      (case e_parent e of Some p \<Rightarrow> darray_get_item folders p | None \<Rightarrow> None)))
           else None)\<rparr>"

section \<open>Entries containers, includes and per-root indices\<close>

text \<open>
  The sort keys index the store's container arrays.  The enum is declared in
  \<^verbatim>\<open>fsearch_database_index.h\<close>, which is not among the sources; \<open>Name\<close> is slot 0
  (\<^verbatim>\<open>load_sorted_arrays\<close> takes slot 0 as the name-sorted arrays and refuses the ids
  below 1) and the others are numbered in the order the specification lists them.
  \<^verbatim>\<open>DATABASE_INDEX_PROPERTY_NONE\<close>, used as the secondary key only, is \<open>None\<close>.
\<close>

definition DATABASE_INDEX_PROPERTY_NAME :: nat where
  "DATABASE_INDEX_PROPERTY_NAME = 0"

definition DATABASE_INDEX_PROPERTY_PATH :: nat where
  "DATABASE_INDEX_PROPERTY_PATH = 1"

definition DATABASE_INDEX_PROPERTY_SIZE :: nat where
  "DATABASE_INDEX_PROPERTY_SIZE = 2"

definition DATABASE_INDEX_PROPERTY_MODIFICATION_TIME :: nat where
  "DATABASE_INDEX_PROPERTY_MODIFICATION_TIME = 3"

definition DATABASE_INDEX_PROPERTY_EXTENSION :: nat where
  "DATABASE_INDEX_PROPERTY_EXTENSION = 4"

text \<open>
  A cancellation token is observed at successive points of a call.  The model keeps the
  point at which it trips: \<open>None\<close> is \<^verbatim>\<open>NULL\<close> or a token that never trips, and a token
  that has tripped stays cancelled.
\<close>

type_synonym gcancellable = "nat option"

definition g_cancellable_is_cancelled :: "gcancellable \<Rightarrow> nat \<Rightarrow> bool" where
  "g_cancellable_is_cancelled cancellable now =
     (case cancellable of None \<Rightarrow> False | Some t \<Rightarrow> t \<le> now)"

record entries_container =
  c_entries :: "db_entry list"
  c_sort_order :: nat
  c_secondary_sort_order :: "nat option"
  c_entry_type :: FsearchDatabaseEntryType

text \<open>
  Modelled from the spec: \<^verbatim>\<open>fsearch_database_entries_container.h\<close> is not among the
  sources.  By section 4.1, \<open>new\<close> returns a container in sorted order and fails with
  \<open>Cancelled\<close> when the token trips; \<open>insert\<close> places an entry at its sorted position;
  \<open>steal\<close> removes it and tells whether it was there; \<open>get(i)\<close> is positional;
  \<open>num_entries\<close> is the exact count, a \<^verbatim>\<open>uint32_t\<close> in the callers.  The comparison of
  entries under a key pair is external: \<open>order\<close> sorts a sequence under the keys, and the
  second argument of \<open>new\<close> (whether the input is taken as it is) is handed to it.
\<close>

type_synonym ordering_fn = "bool \<Rightarrow> nat \<Rightarrow> nat option \<Rightarrow> db_entry list \<Rightarrow> db_entry list"

definition fsearch_database_entries_container_new ::
  "ordering_fn \<Rightarrow> db_entry list \<Rightarrow> bool \<Rightarrow> nat \<Rightarrow> nat option \<Rightarrow> FsearchDatabaseEntryType \<Rightarrow> bool
     \<Rightarrow> entries_container option" where
  "fsearch_database_entries_container_new order array as_is sort_order secondary ty cancelled =
     (if cancelled then None
      else Some \<lparr>c_entries = order as_is sort_order secondary array, c_sort_order = sort_order,
                  c_secondary_sort_order = secondary, c_entry_type = ty\<rparr>)"

definition fsearch_database_entries_container_insert ::
  "ordering_fn \<Rightarrow> entries_container \<Rightarrow> db_entry \<Rightarrow> entries_container" where
  "fsearch_database_entries_container_insert order c entry =
     c\<lparr>c_entries := order False (c_sort_order c) (c_secondary_sort_order c)
                       (entry # c_entries c)\<rparr>"

definition fsearch_database_entries_container_steal ::
  "entries_container \<Rightarrow> db_entry \<Rightarrow> bool \<times> entries_container" where
  "fsearch_database_entries_container_steal c entry =
     (entry \<in> set (c_entries c), c\<lparr>c_entries := remove1 entry (c_entries c)\<rparr>)"

definition fsearch_database_entries_container_get_entry ::
  "entries_container \<Rightarrow> u32 \<Rightarrow> db_entry option" where
  "fsearch_database_entries_container_get_entry c i = darray_get_item (c_entries c) (unat i)"

definition fsearch_database_entries_container_get_num_entries ::
  "entries_container option \<Rightarrow> u32" where
  "fsearch_database_entries_container_get_num_entries c =
     (case c of None \<Rightarrow> 0 | Some x \<Rightarrow> of_nat (length (c_entries x)))"

text \<open>
  Includes as \<^verbatim>\<open>tests/test_database_include.c\<close> builds them; an include manager is the
  sequence of its includes and an exclude manager the sequence of its patterns.
  Modelled from the spec: the managers' \<open>equal(other)\<close> of section 6 is equality of
  these sequences (the test has a manager equal to its copy and unequal once an include
  is removed).
\<close>

record database_include =
  inc_path :: string
  inc_one_file_system :: bool
  inc_monitor :: bool
  inc_scan_after_launch :: bool
  inc_id :: int

type_synonym include_manager = "database_include list"
type_synonym exclude_manager = "string list"

definition fsearch_database_include_manager_equal ::
  "include_manager option \<Rightarrow> include_manager option \<Rightarrow> bool" where
  "fsearch_database_include_manager_equal a b = (a = b)"

definition fsearch_database_exclude_manager_equal ::
  "exclude_manager option \<Rightarrow> exclude_manager option \<Rightarrow> bool" where
  "fsearch_database_exclude_manager_equal a b = (a = b)"

text \<open>
  A per-root index as the store sees it through \<^verbatim>\<open>fsearch_database_index.h\<close>: its id,
  its property flags, the files and folders its scan found, and whether monitoring has
  been switched on.  Creating and scanning an index is external: \<open>scan include excludes
  flags cancelled\<close> is the index when \<^verbatim>\<open>fsearch_database_index_new\<close> and
  \<^verbatim>\<open>fsearch_database_index_scan\<close> both succeed.
\<close>

record database_index =
  ix_id :: int
  ix_flags :: u64
  ix_files :: "db_entry list"
  ix_folders :: "db_entry list"
  ix_monitoring :: bool

type_synonym scan_fn = "database_include \<Rightarrow> exclude_manager \<Rightarrow> u64 \<Rightarrow> bool \<Rightarrow> database_index option"

section \<open>Index store\<close>

text \<open>
  The two container arrays have \<^verbatim>\<open>NUM_DATABASE_INDEX_PROPERTIES\<close> slots each; the
  number is a parameter of \<open>index_store_new\<close> and the loops over all slots are maps over
  the arrays.  The threads, main loops and the reference count are left out.
\<close>

record index_store =
  indices :: "database_index list"
  file_container :: "entries_container option list"
  folder_container :: "entries_container option list"
  include_manager :: include_manager
  exclude_manager :: exclude_manager
  store_flags :: u64
  is_sorted :: bool
  running :: bool

definition sorted_entries_free :: "index_store \<Rightarrow> index_store" where
  "sorted_entries_free self =
     self\<lparr>file_container := map (\<lambda>c. None) (file_container self),
          folder_container := map (\<lambda>c. None) (folder_container self)\<rparr>"

definition has_flag :: "index_store \<Rightarrow> database_index \<Rightarrow> bool" where
  "has_flag self index = (store_flags self AND ix_flags index = store_flags self)"

definition index_store_has_index_with_same_id :: "index_store \<Rightarrow> database_index \<Rightarrow> bool" where
  "index_store_has_index_with_same_id self index =
     list_ex (\<lambda>index_stored. ix_id index_stored = ix_id index) (indices self)"

text \<open>Stealing a sequence of entries from one container, as the inner loops do.\<close>

definition steal_all :: "entries_container \<Rightarrow> db_entry list \<Rightarrow> entries_container" where
  "steal_all c entries =
     foldl (\<lambda>c entry. snd (fsearch_database_entries_container_steal c entry)) c entries"

text \<open>
  The three removals abort (\<^verbatim>\<open>g_assert_not_reached\<close>, \<open>None\<close> here) when the index is
  not a member of the store; an absent or empty argument leaves the store alone
  before that check.
\<close>

definition index_store_remove_entry ::
  "index_store \<Rightarrow> db_entry option \<Rightarrow> database_index \<Rightarrow> index_store option" where
  "index_store_remove_entry self entry index =
     (case entry of None \<Rightarrow> Some self
      | Some e \<Rightarrow>
          if index \<notin> set (indices self) then None
          else if e_type e = DATABASE_ENTRY_TYPE_FOLDER
          then Some (self\<lparr>folder_container :=
                        map (map_option (\<lambda>c. steal_all c [e])) (folder_container self)\<rparr>)
          else Some (self\<lparr>file_container :=
                        map (map_option (\<lambda>c. steal_all c [e])) (file_container self)\<rparr>))"

definition index_store_remove_folders ::
  "index_store \<Rightarrow> db_entry list option \<Rightarrow> database_index \<Rightarrow> index_store option" where
  "index_store_remove_folders self folders index =
     (case folders of None \<Rightarrow> Some self
      | Some fs \<Rightarrow>
          if fs = [] then Some self
          else if index \<notin> set (indices self) then None
          else Some (self\<lparr>folder_container :=
                        map (map_option (\<lambda>c. steal_all c fs)) (folder_container self)\<rparr>))"

definition index_store_remove_files ::
  "index_store \<Rightarrow> db_entry list option \<Rightarrow> database_index \<Rightarrow> index_store option" where
  "index_store_remove_files self files index =
     (case files of None \<Rightarrow> Some self
      | Some fs \<Rightarrow>
          if fs = [] then Some self
          else if index \<notin> set (indices self) then None
          else Some (self\<lparr>file_container :=
                        map (map_option (\<lambda>c. steal_all c fs)) (file_container self)\<rparr>))"

definition index_store_add_entries ::
  "ordering_fn \<Rightarrow> index_store \<Rightarrow> db_entry list option \<Rightarrow> bool \<Rightarrow> index_store" where
  "index_store_add_entries order self entries is_dir =
     (case entries of None \<Rightarrow> self
      | Some es \<Rightarrow>
          if es = [] then self
          else if is_dir
          then self\<lparr>folder_container :=
                  map (map_option
                         (\<lambda>c. foldl (fsearch_database_entries_container_insert order) c es))
                    (folder_container self)\<rparr>
          else self\<lparr>file_container :=
                  map (map_option
                         (\<lambda>c. foldl (fsearch_database_entries_container_insert order) c es))
                    (file_container self)\<rparr>)"

definition index_store_new ::
  "nat \<Rightarrow> include_manager \<Rightarrow> exclude_manager \<Rightarrow> u64 \<Rightarrow> index_store" where
  "index_store_new num_properties include_mgr exclude_mgr flags =
     \<lparr>indices = [], file_container = replicate num_properties None,
      folder_container = replicate num_properties None,
      include_manager = include_mgr, exclude_manager = exclude_mgr, store_flags = flags,
      is_sorted = False, running = False\<rparr>"

text \<open>A slot of a container array; the C arrays hold every sort key, so the guard never
  fails there.\<close>

definition container_slot :: "entries_container option list \<Rightarrow> nat \<Rightarrow> entries_container option" where
  "container_slot slots k = (if k < length slots then slots ! k else None)"

definition index_store_get_files :: "index_store \<Rightarrow> nat \<Rightarrow> entries_container option" where
  "index_store_get_files self sort_order =
     (if \<not> is_sorted self then None else container_slot (file_container self) sort_order)"

definition index_store_get_folders :: "index_store \<Rightarrow> nat \<Rightarrow> entries_container option" where
  "index_store_get_folders self sort_order =
     (if \<not> is_sorted self then None else container_slot (folder_container self) sort_order)"

text \<open>\<^verbatim>\<open>index_store_get_num_fast_sort_indices\<close>: the slots in which both containers are
  present.  The count is at most the number of sort keys; it is kept as a \<open>nat\<close>.\<close>

definition index_store_get_num_fast_sort_indices :: "index_store \<Rightarrow> nat" where
  "index_store_get_num_fast_sort_indices self =
     length (filter (\<lambda>(folder, file). folder \<noteq> None \<and> file \<noteq> None)
               (zip (folder_container self) (file_container self)))"

definition index_store_get_num_files :: "index_store \<Rightarrow> u32" where
  "index_store_get_num_files self =
     fsearch_database_entries_container_get_num_entries
       (container_slot (file_container self) DATABASE_INDEX_PROPERTY_NAME)"

definition index_store_get_num_folders :: "index_store \<Rightarrow> u32" where
  "index_store_get_num_folders self =
     fsearch_database_entries_container_get_num_entries
       (container_slot (folder_container self) DATABASE_INDEX_PROPERTY_NAME)"

text \<open>
  The second loop of \<open>index_store_start\<close>: an index whose id is already in the store, or
  whose flags do not cover the store's, is skipped; the others join the store and
  contribute their files and folders.
\<close>

fun index_store_start_merge ::
  "index_store \<Rightarrow> database_index list \<Rightarrow> db_entry list \<Rightarrow> db_entry list
     \<Rightarrow> index_store \<times> db_entry list \<times> db_entry list" where
  "index_store_start_merge self [] store_files store_folders = (self, store_files, store_folders)"
| "index_store_start_merge self (index # rest) store_files store_folders =
     (if index_store_has_index_with_same_id self index \<or> \<not> has_flag self index
      then index_store_start_merge self rest store_files store_folders
      else index_store_start_merge
             (self\<lparr>indices := indices self @ [index], is_sorted := False\<rparr>) rest
             (store_files @ ix_files index) (store_folders @ ix_folders index))"

text \<open>
  \<open>index_store_start\<close>.  The token is observed by the scans (point 0), by the check
  after them (point 1), by the ten container builds in the order of the source (points
  2 to 11) and by the final check (point 12).
\<close>

definition index_store_start ::
  "scan_fn \<Rightarrow> ordering_fn \<Rightarrow> index_store \<Rightarrow> gcancellable \<Rightarrow> index_store" where
  "index_store_start scan order self cancellable =
     (if running self then self
      else
        let scanned =
              List.map_filter
                (\<lambda>inc. scan inc (exclude_manager self) (store_flags self)
                          (g_cancellable_is_cancelled cancellable 0))
                (include_manager self)
        in if g_cancellable_is_cancelled cancellable 1 then self
           else
             (case index_store_start_merge self scanned [] [] of
                (self1, store_files, store_folders) \<Rightarrow>
                  let build = (\<lambda>array sort_order ty point.
                        fsearch_database_entries_container_new order array False sort_order None ty
                          (g_cancellable_is_cancelled cancellable point));
                      self2 = self1\<lparr>folder_container := (folder_container self1)
                                [DATABASE_INDEX_PROPERTY_NAME :=
                                   build store_folders DATABASE_INDEX_PROPERTY_NAME
                                     DATABASE_ENTRY_TYPE_FOLDER 2]\<rparr>;
                      self3 = self2\<lparr>file_container := (file_container self2)
                                [DATABASE_INDEX_PROPERTY_NAME :=
                                   build store_files DATABASE_INDEX_PROPERTY_NAME
                                     DATABASE_ENTRY_TYPE_FILE 3]\<rparr>;
                      self4 = self3\<lparr>folder_container := (folder_container self3)
                                [DATABASE_INDEX_PROPERTY_PATH :=
                                   build store_folders DATABASE_INDEX_PROPERTY_PATH
                                     DATABASE_ENTRY_TYPE_FOLDER 4]\<rparr>;
                      self5 = self4\<lparr>file_container := (file_container self4)
                                [DATABASE_INDEX_PROPERTY_PATH :=
                                   build store_files DATABASE_INDEX_PROPERTY_PATH
                                     DATABASE_ENTRY_TYPE_FILE 5]\<rparr>;
                      self6 = self5\<lparr>folder_container := (folder_container self5)
                                [DATABASE_INDEX_PROPERTY_SIZE :=
                                   build store_folders DATABASE_INDEX_PROPERTY_SIZE
                                     DATABASE_ENTRY_TYPE_FOLDER 6]\<rparr>;
                      self7 = self6\<lparr>file_container := (file_container self6)
                                [DATABASE_INDEX_PROPERTY_SIZE :=
                                   build store_files DATABASE_INDEX_PROPERTY_SIZE
                                     DATABASE_ENTRY_TYPE_FILE 7]\<rparr>;
                      self8 = self7\<lparr>folder_container := (folder_container self7)
                                [DATABASE_INDEX_PROPERTY_MODIFICATION_TIME :=
                                   build store_folders DATABASE_INDEX_PROPERTY_MODIFICATION_TIME
                                     DATABASE_ENTRY_TYPE_FOLDER 8]\<rparr>;
                      self9 = self8\<lparr>file_container := (file_container self8)
                                [DATABASE_INDEX_PROPERTY_MODIFICATION_TIME :=
                                   build store_files DATABASE_INDEX_PROPERTY_MODIFICATION_TIME
                                     DATABASE_ENTRY_TYPE_FILE 9]\<rparr>;
                      self10 = self9\<lparr>folder_container := (folder_container self9)
                                [DATABASE_INDEX_PROPERTY_EXTENSION :=
                                   build store_folders DATABASE_INDEX_PROPERTY_EXTENSION
                                     DATABASE_ENTRY_TYPE_FOLDER 10]\<rparr>;
                      self11 = self10\<lparr>file_container := (file_container self10)
                                [DATABASE_INDEX_PROPERTY_EXTENSION :=
                                   build store_files DATABASE_INDEX_PROPERTY_EXTENSION
                                     DATABASE_ENTRY_TYPE_FILE 11]\<rparr>;
                      self12 = self11\<lparr>is_sorted := True\<rparr>
                  in if g_cancellable_is_cancelled cancellable 12
                     then (sorted_entries_free self12)\<lparr>indices := []\<rparr>
                     else self12\<lparr>running := True\<rparr>))"

definition index_store_start_monitoring :: "index_store \<Rightarrow> index_store" where
  "index_store_start_monitoring self =
     self\<lparr>indices := map (\<lambda>index. index\<lparr>ix_monitoring := True\<rparr>) (indices self)\<rparr>"

text \<open>
  The states an index store goes through: construction, \<open>index_store_start\<close> under any
  token (completed or cancelled), and the additions and removals that
  \<^verbatim>\<open>index_event_cb\<close> applies for created and deleted entries.
\<close>

inductive store_reachable :: "scan_fn \<Rightarrow> ordering_fn \<Rightarrow> index_store \<Rightarrow> bool"
  for scan :: scan_fn and order :: ordering_fn where
  reach_new: "store_reachable scan order (index_store_new n include_mgr exclude_mgr flags)"
| reach_start:
    "store_reachable scan order s \<Longrightarrow>
     store_reachable scan order (index_store_start scan order s cancellable)"
| reach_monitoring:
    "store_reachable scan order s \<Longrightarrow> store_reachable scan order (index_store_start_monitoring s)"
| reach_add:
    "store_reachable scan order s \<Longrightarrow>
     store_reachable scan order (index_store_add_entries order s entries is_dir)"
| reach_remove_entry:
    "store_reachable scan order s \<Longrightarrow> index_store_remove_entry s entry index = Some s' \<Longrightarrow>
     store_reachable scan order s'"
| reach_remove_folders:
    "store_reachable scan order s \<Longrightarrow> index_store_remove_folders s folders index = Some s' \<Longrightarrow>
     store_reachable scan order s'"
| reach_remove_files:
    "store_reachable scan order s \<Longrightarrow> index_store_remove_files s files index = Some s' \<Longrightarrow>
     store_reachable scan order s'"

definition paired_slots ::
  "entries_container option list \<Rightarrow> entries_container option list \<Rightarrow> bool" where
  "paired_slots folders files = list_all2 (\<lambda>a b. (a = None) = (b = None)) folders files"

section \<open>Snapshot codec: the whole file\<close>

text \<open>
  \<^verbatim>\<open>load_sorted_entries\<close> reads \<open>num_src_entries\<close> 32-bit positions and looks each up in
  the name-sorted array; a position outside the array fails the load.
\<close>

fun chunks4 :: "u8 list \<Rightarrow> u8 list list" where
  "chunks4 (a # b # c # d # rest) = [a, b, c, d] # chunks4 rest"
| "chunks4 rest = []"

definition load_sorted_entries ::
  "rfile \<Rightarrow> db_entry list \<Rightarrow> u32 \<Rightarrow> (db_entry list \<times> rfile) option" where
  "load_sorted_entries fp src num_src_entries =
     (case fread_bytes (4 * unat num_src_entries) fp of None \<Rightarrow> None
      | Some (indexes, fp') \<Rightarrow>
          (case those (map (\<lambda>bs. darray_get_item src (unat (of_nat (from_le bs) :: u32)))
                         (chunks4 indexes)) of
             None \<Rightarrow> None
           | Some dest \<Rightarrow> Some (dest, fp')))"

text \<open>
  \<^verbatim>\<open>load_sorted_arrays\<close>: the loop over the \<open>num_sorted_arrays\<close> announced arrays, each an
  id in \<open>[1, NUM_DATABASE_INDEX_PROPERTIES)\<close> followed by the folder and the file
  positions.
\<close>

fun load_sorted_arrays_loop ::
  "nat \<Rightarrow> nat \<Rightarrow> rfile \<Rightarrow> db_entry list option list \<Rightarrow> db_entry list option list
     \<Rightarrow> (db_entry list option list \<times> db_entry list option list \<times> rfile) option" where
  "load_sorted_arrays_loop num_properties 0 fp sorted_folders sorted_files =
     Some (sorted_folders, sorted_files, fp)"
| "load_sorted_arrays_loop num_properties (Suc k) fp sorted_folders sorted_files =
     (case read_element_from_file 4 fp of None \<Rightarrow> None
      | Some (id_bytes, fp1) \<Rightarrow>
          (let sorted_array_id = (of_nat (from_le id_bytes) :: u32)
           in if sorted_array_id < 1 \<or> num_properties \<le> unat sorted_array_id then None
              else
                (let folders = (case darray_get_item sorted_folders 0 of
                                  Some (Some fs) \<Rightarrow> fs | _ \<Rightarrow> []);
                     files = (case darray_get_item sorted_files 0 of
                                Some (Some fs) \<Rightarrow> fs | _ \<Rightarrow> [])
                 in case load_sorted_entries fp1 folders (of_nat (length folders)) of
                      None \<Rightarrow> None
                    | Some (dest_folders, fp2) \<Rightarrow>
                        (case load_sorted_entries fp2 files (of_nat (length files)) of
                           None \<Rightarrow> None
                         | Some (dest_files, fp3) \<Rightarrow>
                             load_sorted_arrays_loop num_properties k fp3
                               (sorted_folders[unat sorted_array_id := Some dest_folders])
                               (sorted_files[unat sorted_array_id := Some dest_files])))))"

definition load_sorted_arrays ::
  "nat \<Rightarrow> rfile \<Rightarrow> db_entry list option list \<Rightarrow> db_entry list option list
     \<Rightarrow> (db_entry list option list \<times> db_entry list option list \<times> rfile) option" where
  "load_sorted_arrays num_properties fp sorted_folders sorted_files =
     (case read_element_from_file 4 fp of None \<Rightarrow> None
      | Some (n_bytes, fp1) \<Rightarrow>
          load_sorted_arrays_loop num_properties (unat (of_nat (from_le n_bytes) :: u32)) fp1
            sorted_folders sorted_files)"

text \<open>
  \<^verbatim>\<open>db_file_load\<close>.  The argument is the result of \<^verbatim>\<open>file_open_locked\<close>: the bytes of
  the file, or \<open>None\<close> when it cannot be opened or is locked.  \<open>Loaded\<close> is the C
  function's \<^verbatim>\<open>true\<close>; it carries the decoded arrays for reference only, because the C
  function hands none of them to its caller: the code that would have built a store
  from them is commented out, and \<^verbatim>\<open>store_out\<close> is never written.
\<close>

definition db_file_load ::
  "property_flag_bits \<Rightarrow> nat \<Rightarrow> db_entry \<Rightarrow> rfile option
     \<Rightarrow> (db_entry list option list \<times> db_entry list option list) load_result" where
  "db_file_load M num_properties blank file =
     (case file of None \<Rightarrow> LoadFailed | Some fp \<Rightarrow>
     (case load_header fp of None \<Rightarrow> LoadFailed | Some fp1 \<Rightarrow>
     (case read_element_from_file 8 fp1 of None \<Rightarrow> LoadFailed | Some (flag_bytes, fp2) \<Rightarrow>
     (case read_element_from_file 4 fp2 of None \<Rightarrow> LoadFailed | Some (nfolders, fp3) \<Rightarrow>
     (case read_element_from_file 4 fp3 of None \<Rightarrow> LoadFailed | Some (nfiles, fp4) \<Rightarrow>
     (case read_element_from_file 8 fp4 of None \<Rightarrow> LoadFailed | Some (fbs, fp5) \<Rightarrow>
     (case read_element_from_file 8 fp5 of None \<Rightarrow> LoadFailed | Some (xbs, fp6) \<Rightarrow>
     (case read_element_from_file 4 fp6 of None \<Rightarrow> LoadFailed | Some (nindexes, fp7) \<Rightarrow>
     (case read_element_from_file 4 fp7 of None \<Rightarrow> LoadFailed | Some (nexcludes, fp8) \<Rightarrow>
     (let index_flags = (of_nat (from_le flag_bytes) :: u64);
          num_folders = (of_nat (from_le nfolders) :: u32);
          num_files = (of_nat (from_le nfiles) :: u32);
          folder_block_size = (of_nat (from_le fbs) :: u64);
          file_block_size = (of_nat (from_le xbs) :: u64);
          folders0 = preallocate_folders blank num_folders
      in case load_folders M fp8 index_flags folders0 num_folders folder_block_size of
           LoadFailed \<Rightarrow> LoadFailed
         | ReadOutsideBuffer \<Rightarrow> ReadOutsideBuffer
         | Loaded (folders, fp9) \<Rightarrow>
      (case load_files M fp9 index_flags blank folders [] num_files file_block_size of
           LoadFailed \<Rightarrow> LoadFailed
         | ReadOutsideBuffer \<Rightarrow> ReadOutsideBuffer
         | Loaded (files, fp10) \<Rightarrow>
      (case load_sorted_arrays num_properties fp10
              ((replicate num_properties None)[DATABASE_INDEX_PROPERTY_NAME := Some folders])
              ((replicate num_properties None)[DATABASE_INDEX_PROPERTY_NAME := Some files]) of
           None \<Rightarrow> LoadFailed
         | Some (sorted_folders, sorted_files, fp11) \<Rightarrow>
             Loaded (sorted_folders, sorted_files)))))))))))))"

section \<open>Search views and selections\<close>

datatype GtkSortType = GTK_SORT_ASCENDING | GTK_SORT_DESCENDING

text \<open>
  A search view.  The query is kept as its text; a selection is the set of the selected
  entries.  Modelled from the spec: \<^verbatim>\<open>fsearch_selection.h\<close> is not among the sources;
  by sections 3, 4.4 and 8 a selection is a set of entry references that \<open>select\<close> adds
  to, \<open>unselect\<close> removes from and \<open>toggle\<close> flips, \<open>All\<close> adds every entry of a
  container and \<open>Invert\<close> flips every entry of a container.  An entry reference is
  the entry record here, where the program has a pointer: two entries of a view are
  taken to differ in some field.
\<close>

record search_view =
  v_query :: string
  v_file_container :: "entries_container option"
  v_folder_container :: "entries_container option"
  v_sort_type :: GtkSortType
  v_sort_order :: nat
  v_secondary_sort_order :: "nat option"
  v_file_selection :: "db_entry set"
  v_folder_selection :: "db_entry set"

definition fsearch_selection_select :: "db_entry set \<Rightarrow> db_entry \<Rightarrow> db_entry set" where
  "fsearch_selection_select selection entry = insert entry selection"

definition fsearch_selection_unselect :: "db_entry set \<Rightarrow> db_entry \<Rightarrow> db_entry set" where
  "fsearch_selection_unselect selection entry = selection - {entry}"

definition fsearch_selection_select_toggle :: "db_entry set \<Rightarrow> db_entry \<Rightarrow> db_entry set" where
  "fsearch_selection_select_toggle selection entry =
     (if entry \<in> selection then selection - {entry} else insert entry selection)"

definition fsearch_selection_unselect_all :: "db_entry set \<Rightarrow> db_entry set" where
  "fsearch_selection_unselect_all selection = {}"

definition fsearch_selection_select_all :: "db_entry set \<Rightarrow> db_entry list \<Rightarrow> db_entry set" where
  "fsearch_selection_select_all selection entries = foldl fsearch_selection_select selection entries"

definition fsearch_selection_invert :: "db_entry set \<Rightarrow> db_entry list \<Rightarrow> db_entry set" where
  "fsearch_selection_invert selection entries =
     foldl fsearch_selection_select_toggle selection entries"

definition fsearch_selection_is_selected :: "db_entry set \<Rightarrow> db_entry \<Rightarrow> bool" where
  "fsearch_selection_is_selected selection entry = (entry \<in> selection)"

definition fsearch_selection_get_num_selected :: "db_entry set \<Rightarrow> u32" where
  "fsearch_selection_get_num_selected selection = of_nat (card selection)"

text \<open>The shards of a container, of which the model has one.\<close>

definition fsearch_database_entries_container_get_containers ::
  "entries_container option \<Rightarrow> db_entry list list" where
  "fsearch_database_entries_container_get_containers c =
     (case c of None \<Rightarrow> [] | Some x \<Rightarrow> [c_entries x])"

text \<open>
  Both counters test \<^verbatim>\<open>view->file_container\<close>, as the source does.
\<close>

definition get_num_search_file_results :: "search_view option \<Rightarrow> u32" where
  "get_num_search_file_results view =
     (case view of None \<Rightarrow> 0
      | Some v \<Rightarrow>
          if v_file_container v \<noteq> None
          then fsearch_database_entries_container_get_num_entries (v_file_container v) else 0)"

definition get_num_search_folder_results :: "search_view option \<Rightarrow> u32" where
  "get_num_search_folder_results view =
     (case view of None \<Rightarrow> 0
      | Some v \<Rightarrow>
          if v_file_container v \<noteq> None
          then fsearch_database_entries_container_get_num_entries (v_folder_container v) else 0)"

definition get_idx_for_sort_type :: "u32 \<Rightarrow> u32 \<Rightarrow> u32 \<Rightarrow> GtkSortType \<Rightarrow> u32" where
  "get_idx_for_sort_type idx num_files num_folders sort_type =
     (if sort_type = GTK_SORT_DESCENDING then num_folders + num_files - (idx + 1) else idx)"

definition get_entry_for_idx :: "search_view \<Rightarrow> u32 \<Rightarrow> db_entry option" where
  "get_entry_for_idx view idx =
     (case v_folder_container view of None \<Rightarrow> None
      | Some folders \<Rightarrow>
     (case v_file_container view of None \<Rightarrow> None
      | Some files \<Rightarrow>
     (let num_folders = get_num_search_folder_results (Some view);
          num_files = get_num_search_file_results (Some view);
          idx1 = get_idx_for_sort_type idx num_files num_folders (v_sort_type view)
      in if idx1 < num_folders
         then fsearch_database_entries_container_get_entry folders idx1
         else (let idx2 = idx1 - num_folders
               in if idx2 < num_files
                  then fsearch_database_entries_container_get_entry files idx2
                  else None))))"

definition is_selected :: "search_view \<Rightarrow> db_entry \<Rightarrow> bool" where
  "is_selected view entry =
     (if e_type entry = DATABASE_ENTRY_TYPE_FILE
      then fsearch_selection_is_selected (v_file_selection view) entry
      else fsearch_selection_is_selected (v_folder_selection view) entry)"

text \<open>
  The bodies of the two range loops, and the loops.  The counter \<open>i\<close> is an
  \<^verbatim>\<open>int32_t\<close> compared as such and handed to \<open>get_entry_for_idx\<close> as a \<^verbatim>\<open>uint32_t\<close>; it
  is kept as its 32 bits.  With \<open>end_idx = INT32_MAX\<close> the condition \<open>i \<le> end_idx\<close> never
  fails and the increment overflows: the loop has no result (\<open>None\<close>).
\<close>

definition toggle_range_body :: "search_view \<Rightarrow> u32 \<Rightarrow> search_view" where
  "toggle_range_body view i =
     (case get_entry_for_idx view i of None \<Rightarrow> view
      | Some entry \<Rightarrow>
          if e_type entry = DATABASE_ENTRY_TYPE_FILE
          then view\<lparr>v_file_selection :=
                 fsearch_selection_select_toggle (v_file_selection view) entry\<rparr>
          else view\<lparr>v_folder_selection :=
                 fsearch_selection_select_toggle (v_folder_selection view) entry\<rparr>)"

definition select_range_body :: "search_view \<Rightarrow> u32 \<Rightarrow> search_view" where
  "select_range_body view i =
     (case get_entry_for_idx view i of None \<Rightarrow> view
      | Some entry \<Rightarrow>
          if e_type entry = DATABASE_ENTRY_TYPE_FILE
          then view\<lparr>v_file_selection := fsearch_selection_select (v_file_selection view) entry\<rparr>
          else view\<lparr>v_folder_selection :=
                 fsearch_selection_select (v_folder_selection view) entry\<rparr>)"

partial_function (option) toggle_range_loop ::
  "search_view \<Rightarrow> u32 \<Rightarrow> u32 \<Rightarrow> search_view option" where
  "toggle_range_loop view i end_idx =
     (if word_sle i end_idx then toggle_range_loop (toggle_range_body view i) (i + 1) end_idx
      else Some view)"

partial_function (option) select_range_loop ::
  "search_view \<Rightarrow> u32 \<Rightarrow> u32 \<Rightarrow> search_view option" where
  "select_range_loop view i end_idx =
     (if word_sle i end_idx then select_range_loop (select_range_body view i) (i + 1) end_idx
      else Some view)"

declare toggle_range_loop.simps [code]
declare select_range_loop.simps [code]

definition toggle_range :: "search_view \<Rightarrow> u32 \<Rightarrow> u32 \<Rightarrow> search_view option" where
  "toggle_range view start_idx end_idx =
     (if word_sless end_idx start_idx then toggle_range_loop view end_idx start_idx
      else toggle_range_loop view start_idx end_idx)"

definition select_range :: "search_view \<Rightarrow> u32 \<Rightarrow> u32 \<Rightarrow> search_view option" where
  "select_range view start_idx end_idx =
     (if word_sless end_idx start_idx then select_range_loop view end_idx start_idx
      else select_range_loop view start_idx end_idx)"

text \<open>
  Modelled from the spec: the indices a range covers, in the words of section 4.4, where
  either endpoint order is accepted and the smaller is used as start: from the smaller
  endpoint to the larger, both read as \<^verbatim>\<open>int32_t\<close>, in ascending order.
\<close>

definition range_indices :: "u32 \<Rightarrow> u32 \<Rightarrow> u32 list" where
  "range_indices a b = map word_of_int [min (sint a) (sint b)..max (sint a) (sint b)]"

section \<open>The database object and its work handlers\<close>

datatype FsearchDatabaseEventType =
  EVENT_LOAD_STARTED | EVENT_LOAD_FINISHED | EVENT_ITEM_INFO_READY | EVENT_SAVE_STARTED
| EVENT_SAVE_FINISHED | EVENT_SCAN_STARTED | EVENT_SCAN_FINISHED | EVENT_SEARCH_STARTED
| EVENT_SEARCH_FINISHED | EVENT_SORT_STARTED | EVENT_SORT_FINISHED | EVENT_SELECTION_CHANGED
| EVENT_DATABASE_CHANGED

datatype FsearchResult =
  FSEARCH_RESULT_SUCCESS | FSEARCH_RESULT_FAILED | FSEARCH_RESULT_DB_BUSY
| FSEARCH_RESULT_DB_UNKOWN_SEARCH_VIEW | FSEARCH_RESULT_DB_ENTRY_NOT_FOUND

datatype FsearchSelectionType =
  FSEARCH_SELECTION_TYPE_CLEAR | FSEARCH_SELECTION_TYPE_ALL | FSEARCH_SELECTION_TYPE_INVERT
| FSEARCH_SELECTION_TYPE_SELECT | FSEARCH_SELECTION_TYPE_TOGGLE
| FSEARCH_SELECTION_TYPE_SELECT_RANGE | FSEARCH_SELECTION_TYPE_TOGGLE_RANGE

text \<open>The info objects the handlers build, with the arguments of their constructors.\<close>

record database_info =
  di_include_manager :: "include_manager option"
  di_exclude_manager :: "exclude_manager option"
  di_num_files :: u32
  di_num_folders :: u32

record search_info =
  si_query :: string
  si_num_files :: u32
  si_num_folders :: u32
  si_num_files_selected :: u32
  si_num_folders_selected :: u32
  si_sort_order :: nat
  si_sort_type :: GtkSortType

record entry_info =
  ei_entry :: db_entry
  ei_query :: string
  ei_idx :: u32
  ei_is_selected :: bool
  ei_flags :: u32

datatype signal_arg =
  Arg_View_Id u32 | Arg_Database_Info database_info | Arg_Search_Info search_info
| Arg_Entry_Info entry_info

text \<open>
  The database object.  \<open>db_file\<close> is the \<^verbatim>\<open>GFile\<close> (\<open>None\<close> for \<^verbatim>\<open>NULL\<close>), kept as the
  result of \<^verbatim>\<open>g_file_get_path\<close>, which is \<open>None\<close> for a file without a local path.
  \<open>emitted\<close> is the queue of the signals posted with \<^verbatim>\<open>g_idle_add\<close>, in post order.
  \<open>search_results\<close> is the hash table keyed by view id.  The mutex, the work queue and
  the thread pool are left out: the handlers run one after the other.
\<close>

record fsearch_database =
  db_file :: "string option option"
  search_results :: "(u32 \<times> search_view) list"
  db_store :: "index_store option"
  db_flags :: u64
  emitted :: "(FsearchDatabaseEventType \<times> signal_arg list) list"

definition emit_signal ::
  "fsearch_database \<Rightarrow> FsearchDatabaseEventType \<Rightarrow> signal_arg list \<Rightarrow> fsearch_database" where
  "emit_signal self ty args = self\<lparr>emitted := emitted self @ [(ty, args)]\<rparr>"

definition emit_signal0 :: "fsearch_database \<Rightarrow> FsearchDatabaseEventType \<Rightarrow> fsearch_database" where
  "emit_signal0 self ty = emit_signal self ty []"

definition get_exclude_manager :: "fsearch_database \<Rightarrow> exclude_manager option" where
  "get_exclude_manager self = map_option exclude_manager (db_store self)"

definition get_include_manager :: "fsearch_database \<Rightarrow> include_manager option" where
  "get_include_manager self = map_option include_manager (db_store self)"

definition get_num_database_files :: "fsearch_database \<Rightarrow> u32" where
  "get_num_database_files self =
     (case db_store self of None \<Rightarrow> 0 | Some s \<Rightarrow> index_store_get_num_files s)"

definition get_num_database_folders :: "fsearch_database \<Rightarrow> u32" where
  "get_num_database_folders self =
     (case db_store self of None \<Rightarrow> 0 | Some s \<Rightarrow> index_store_get_num_folders s)"

definition get_database_info :: "fsearch_database \<Rightarrow> database_info" where
  "get_database_info self =
     \<lparr>di_include_manager = get_include_manager self,
      di_exclude_manager = get_exclude_manager self,
      di_num_files = get_num_database_files self,
      di_num_folders = get_num_database_folders self\<rparr>"

definition get_search_view :: "fsearch_database \<Rightarrow> u32 \<Rightarrow> search_view option" where
  "get_search_view self view_id = map_of (search_results self) view_id"

definition view_search_info :: "search_view \<Rightarrow> search_info" where
  "view_search_info view =
     \<lparr>si_query = v_query view,
      si_num_files = get_num_search_file_results (Some view),
      si_num_folders = get_num_search_folder_results (Some view),
      si_num_files_selected = fsearch_selection_get_num_selected (v_file_selection view),
      si_num_folders_selected = fsearch_selection_get_num_selected (v_folder_selection view),
      si_sort_order = v_sort_order view,
      si_sort_type = v_sort_type view\<rparr>"

record item_info_work =
  ii_view_id :: u32
  ii_index :: u32
  ii_flags :: u32

definition get_entry_info_non_blocking ::
  "fsearch_database \<Rightarrow> item_info_work \<Rightarrow> FsearchResult \<times> entry_info option" where
  "get_entry_info_non_blocking self work =
     (case get_search_view self (ii_view_id work) of
        None \<Rightarrow> (FSEARCH_RESULT_DB_UNKOWN_SEARCH_VIEW, None)
      | Some view \<Rightarrow>
          (case get_entry_for_idx view (ii_index work) of
             None \<Rightarrow> (FSEARCH_RESULT_DB_ENTRY_NOT_FOUND, None)
           | Some entry \<Rightarrow>
               (FSEARCH_RESULT_SUCCESS,
                Some \<lparr>ei_entry = entry, ei_query = v_query view, ei_idx = ii_index work,
                       ei_is_selected = is_selected view entry, ei_flags = ii_flags work\<rparr>)))"

text \<open>
  \<^verbatim>\<open>modify_selection\<close>.  The view is changed in place in the hash table.  The result is
  \<open>None\<close> when a range loop has none.
\<close>

record modify_selection_work =
  ms_view_id :: u32
  ms_type :: FsearchSelectionType
  ms_start_idx :: u32
  ms_end_idx :: u32

definition store_view :: "(u32 \<times> search_view) list \<Rightarrow> u32 \<Rightarrow> search_view \<Rightarrow> (u32 \<times> search_view) list" where
  "store_view table view_id view = map (\<lambda>(k, v). if k = view_id then (k, view) else (k, v)) table"

definition apply_selection ::
  "search_view \<Rightarrow> db_entry \<Rightarrow> FsearchSelectionType \<Rightarrow> u32 \<Rightarrow> u32 \<Rightarrow> search_view option" where
  "apply_selection view entry ty start_idx end_idx =
     (let file_container =
            fsearch_database_entries_container_get_containers (v_file_container view);
          folder_container =
            fsearch_database_entries_container_get_containers (v_folder_container view)
      in case ty of
           FSEARCH_SELECTION_TYPE_CLEAR \<Rightarrow>
             Some (view\<lparr>v_file_selection := fsearch_selection_unselect_all (v_file_selection view),
                        v_folder_selection :=
                          fsearch_selection_unselect_all (v_folder_selection view)\<rparr>)
         | FSEARCH_SELECTION_TYPE_ALL \<Rightarrow>
             Some (view\<lparr>v_file_selection :=
                          foldl fsearch_selection_select_all (v_file_selection view) file_container,
                        v_folder_selection :=
                          foldl fsearch_selection_select_all (v_folder_selection view)
                            folder_container\<rparr>)
         | FSEARCH_SELECTION_TYPE_INVERT \<Rightarrow>
             Some (view\<lparr>v_file_selection :=
                          foldl fsearch_selection_invert (v_file_selection view) file_container,
                        v_folder_selection :=
                          foldl fsearch_selection_invert (v_folder_selection view)
                            folder_container\<rparr>)
         | FSEARCH_SELECTION_TYPE_SELECT \<Rightarrow>
             Some (if e_type entry = DATABASE_ENTRY_TYPE_FILE
                   then view\<lparr>v_file_selection :=
                          fsearch_selection_select (v_file_selection view) entry\<rparr>
                   else view\<lparr>v_folder_selection :=
                          fsearch_selection_select (v_folder_selection view) entry\<rparr>)
         | FSEARCH_SELECTION_TYPE_TOGGLE \<Rightarrow>
             Some (if e_type entry = DATABASE_ENTRY_TYPE_FILE
                   then view\<lparr>v_file_selection :=
                          fsearch_selection_select_toggle (v_file_selection view) entry\<rparr>
                   else view\<lparr>v_folder_selection :=
                          fsearch_selection_select_toggle (v_folder_selection view) entry\<rparr>)
         | FSEARCH_SELECTION_TYPE_SELECT_RANGE \<Rightarrow> select_range view start_idx end_idx
         | FSEARCH_SELECTION_TYPE_TOGGLE_RANGE \<Rightarrow> toggle_range view start_idx end_idx)"

definition modify_selection ::
  "fsearch_database \<Rightarrow> modify_selection_work \<Rightarrow> fsearch_database option" where
  "modify_selection self work =
     (case get_search_view self (ms_view_id work) of
        None \<Rightarrow> Some self
      | Some view \<Rightarrow>
          (case get_entry_for_idx view (ms_start_idx work) of
             None \<Rightarrow> Some self
           | Some entry \<Rightarrow>
               (case apply_selection view entry (ms_type work) (ms_start_idx work)
                       (ms_end_idx work) of
                  None \<Rightarrow> None
                | Some view' \<Rightarrow>
                    Some (emit_signal
                            (self\<lparr>search_results :=
                                     store_view (search_results self) (ms_view_id work) view'\<rparr>)
                            EVENT_SELECTION_CHANGED
                            [Arg_View_Id (ms_view_id work),
                             Arg_Search_Info (view_search_info view')]))))"

text \<open>
  \<^verbatim>\<open>scan_database\<close>.  The scanner, the ordering of the containers and the number of sort
  keys are the environment.  The new store is started with a \<^verbatim>\<open>NULL\<close> token.
\<close>

record scan_work =
  sw_include_manager :: include_manager
  sw_exclude_manager :: exclude_manager
  sw_flags :: u64

definition scan_database ::
  "scan_fn \<Rightarrow> ordering_fn \<Rightarrow> nat \<Rightarrow> fsearch_database \<Rightarrow> scan_work \<Rightarrow> fsearch_database" where
  "scan_database scan order num_properties self work =
     (if db_store self \<noteq> None
         \<and> fsearch_database_include_manager_equal (get_include_manager self)
              (Some (sw_include_manager work))
         \<and> fsearch_database_exclude_manager_equal (get_exclude_manager self)
              (Some (sw_exclude_manager work))
      then self
      else
        let self1 = emit_signal0 self EVENT_SCAN_STARTED;
            store = index_store_start scan order
                      (index_store_new num_properties (sw_include_manager work)
                         (sw_exclude_manager work) (sw_flags work)) None;
            self2 = self1\<lparr>db_flags := sw_flags work,
                         db_store := Some (index_store_start_monitoring store)\<rparr>;
            self3 = self2\<lparr>search_results := []\<rparr>
        in emit_signal self3 EVENT_SCAN_FINISHED [Arg_Database_Info (get_database_info self3)])"

text \<open>
  \<^verbatim>\<open>load_database_from_file\<close>.  The call of \<^verbatim>\<open>db_file_load\<close> is commented out in the
  source and \<^verbatim>\<open>res\<close> is the constant \<^verbatim>\<open>false\<close>, so the branch that installs the loaded
  store is dead, and the other branch is empty: its two statements are commented out.
\<close>

definition load_database_from_file :: "fsearch_database \<Rightarrow> fsearch_database" where
  "load_database_from_file self =
     (case db_file self of None \<Rightarrow> self
      | Some file \<Rightarrow>
          (let self1 = emit_signal0 self EVENT_LOAD_STARTED
           in case file of None \<Rightarrow> self1
              | Some file_path \<Rightarrow>
                  (let store = None;
                       res = False;
                       self2 = (if res then self1\<lparr>db_store := store\<rparr> else self1)
                   in emit_signal self2 EVENT_LOAD_FINISHED
                        [Arg_Database_Info (get_database_info self2)])))"

section \<open>Example data\<close>

text \<open>
  A folder \<open>d\<close> with the files \<open>a\<close> and \<open>b\<close>; a descending view over them in which \<open>a\<close>
  is selected; an engine without a store that has this view registered under id 1 and a
  snapshot file to load; and the bytes of a snapshot of the three entries.
\<close>

definition example_folder :: db_entry where
  "example_folder =
     \<lparr>e_type = DATABASE_ENTRY_TYPE_FOLDER, e_name = [100], e_parent = None, e_size = 0,
      e_mtime = 0, e_idx = 0, e_db_index = 0\<rparr>"

definition example_file_a :: db_entry where
  "example_file_a =
     \<lparr>e_type = DATABASE_ENTRY_TYPE_FILE, e_name = [97], e_parent = Some 0, e_size = 0,
      e_mtime = 0, e_idx = 0, e_db_index = 0\<rparr>"

definition example_file_b :: db_entry where
  "example_file_b =
     \<lparr>e_type = DATABASE_ENTRY_TYPE_FILE, e_name = [98], e_parent = Some 0, e_size = 0,
      e_mtime = 0, e_idx = 1, e_db_index = 0\<rparr>"

definition example_view :: search_view where
  "example_view =
     \<lparr>v_query = ''*'',
      v_file_container =
        Some \<lparr>c_entries = [example_file_a, example_file_b], c_sort_order = 0,
               c_secondary_sort_order = None, c_entry_type = DATABASE_ENTRY_TYPE_FILE\<rparr>,
      v_folder_container =
        Some \<lparr>c_entries = [example_folder], c_sort_order = 0,
               c_secondary_sort_order = None, c_entry_type = DATABASE_ENTRY_TYPE_FOLDER\<rparr>,
      v_sort_type = GTK_SORT_DESCENDING, v_sort_order = 0, v_secondary_sort_order = None,
      v_file_selection = {example_file_a}, v_folder_selection = {}\<rparr>"

definition example_database :: fsearch_database where
  "example_database =
     \<lparr>db_file = Some (Some ''/home/user_1/fsearch.db''),
      search_results = [(1, example_view)], db_store = None, db_flags = 0, emitted = []\<rparr>"

definition example_snapshot :: rfile where
  "example_snapshot =
     [70, 83, 68, 66, 1, 0] @ [0, 0, 0, 0, 0, 0, 0, 0] @
     [1, 0, 0, 0] @ [2, 0, 0, 0] @
     [9, 0, 0, 0, 0, 0, 0, 0] @ [14, 0, 0, 0, 0, 0, 0, 0] @
     [0, 0, 0, 0] @ [0, 0, 0, 0] @
     [0, 0, 0, 1, 100, 0, 0, 0, 0] @
     [0, 1, 97, 0, 0, 0, 0, 0, 1, 98, 0, 0, 0, 0] @
     [0, 0, 0, 0]"

text \<open>
  A descending view whose two containers hold \<open>2^31\<close> folders and \<open>2^31 + 1\<close> files:
  each count fits a \<^verbatim>\<open>uint32_t\<close>, their sum does not.
\<close>

definition wide_view :: search_view where
  "wide_view =
     \<lparr>v_query = ''*'',
      v_file_container =
        Some \<lparr>c_entries = replicate (2 ^ 31 + 1) example_file_a, c_sort_order = 0,
               c_secondary_sort_order = None, c_entry_type = DATABASE_ENTRY_TYPE_FILE\<rparr>,
      v_folder_container =
        Some \<lparr>c_entries = replicate (2 ^ 31) example_folder, c_sort_order = 0,
               c_secondary_sort_order = None, c_entry_type = DATABASE_ENTRY_TYPE_FOLDER\<rparr>,
      v_sort_type = GTK_SORT_DESCENDING, v_sort_order = 0, v_secondary_sort_order = None,
      v_file_selection = {}, v_folder_selection = {}\<rparr>"

text \<open>An engine whose store was created for one include, no excludes and no flags.\<close>

definition example_include :: database_include where
  "example_include =
     \<lparr>inc_path = ''/home/user_1'', inc_one_file_system = True, inc_monitor = True,
      inc_scan_after_launch = False, inc_id = 1\<rparr>"

definition scanned_database :: fsearch_database where
  "scanned_database =
     \<lparr>db_file = None, search_results = [(1, example_view)],
      db_store = Some (index_store_new 5 [example_include] [] 0), db_flags = 0, emitted = []\<rparr>"

section \<open>Properties of the header check\<close>

lemma load_header_magic_versions:
  "load_header (DATABASE_MAGIC_NUMBER @ major # minor # rest) =
     (if major = DATABASE_MAJOR_VERSION \<and> minor \<le> DATABASE_MINOR_VERSION
      then Some rest else None)"
  by (auto simp: load_header_def read_element_from_file_def DATABASE_MAGIC_NUMBER_def not_less)

text \<open>
  C3, as stated, fails: a header with the magic "FSDB", major version 1 and minor
  version 1 (which is \<open>\<le> 1\<close>) is rejected, because \<open>DATABASE_MINOR_VERSION\<close> is 0.
\<close>

theorem load_header_minor_one_rejected:
  "load_header (DATABASE_MAGIC_NUMBER @ [1, 1]) = None"
  by (simp add: load_header_magic_versions DATABASE_MINOR_VERSION_def)

text \<open>
  C3, amended: after the magic "FSDB" the header is accepted exactly when the major
  version is 1 and the minor version is 0 (the only value not above
  \<open>DATABASE_MINOR_VERSION = 0\<close>); it is rejected exactly when the major version differs
  from 1 or the minor version is greater than 0.
\<close>

theorem load_header_accepts_iff:
  "load_header (DATABASE_MAGIC_NUMBER @ major # minor # rest) =
     (if major = 1 \<and> minor = 0 then Some rest else None)"
  by (simp add: load_header_magic_versions DATABASE_MAJOR_VERSION_def DATABASE_MINOR_VERSION_def)

section \<open>The snapshot codec round trip\<close>

lemma length_to_le: "length (to_le k n) = k"
  by (induction k arbitrary: n) auto

lemma from_le_to_le: "from_le (to_le k n) = n mod 256 ^ k"
proof (induction k arbitrary: n)
  case 0
  then show ?case by simp
next
  case (Suc k)
  have "unat (of_nat (n mod 256) :: u8) = n mod 256"
    by (simp add: unat_of_nat)
  then show ?case
    using Suc by (simp add: mod_mult2_eq)
qed

lemma le64_roundtrip: "of_nat (from_le (le64 w)) = w"
proof -
  have "unat w < 256 ^ 8" using unsigned_less [of w, where ?'a = nat] by simp
  then show ?thesis by (simp add: le64_def from_le_to_le)
qed

lemma le32_roundtrip: "of_nat (from_le (le32 w)) = w"
proof -
  have "unat w < 256 ^ 4" using unsigned_less [of w, where ?'a = nat] by simp
  then show ?thesis by (simp add: le32_def from_le_to_le)
qed

lemma write_data_to_file_Some:
  "write_data_to_file fp d = Some (n, fp') \<Longrightarrow> written fp' = written fp @ d \<and> n = length d"
  by (auto simp: write_data_to_file_def split: if_splits)

lemma get_name_offset_loop_props:
  "k \<le> 255 \<Longrightarrow>
   \<exists>d. get_name_offset_loop old new k = k + d \<and> k + d \<le> 255 \<and>
       d \<le> length old \<and> d \<le> length new \<and> take d old = take d new"
proof (induction old new k rule: get_name_offset_loop.induct)
  case (1 a old b new offset)
  show ?case
  proof (cases "a = b \<and> a \<noteq> 0 \<and> b \<noteq> 0 \<and> offset < 255")
    case True
    then have "Suc offset \<le> 255" by simp
    from 1(1) [OF True this] obtain d where
      d: "get_name_offset_loop old new (Suc offset) = Suc offset + d" "Suc offset + d \<le> 255"
         "d \<le> length old" "d \<le> length new" "take d old = take d new"
      by blast
    show ?thesis
      by (rule exI [of _ "Suc d"]) (use True d in simp)
  next
    case False
    show ?thesis
      by (rule exI [of _ 0]) (use False 1(2) in auto)
  qed
qed auto

lemma get_name_offset_props:
  "\<exists>d. unat (get_name_offset old new) = d \<and> d \<le> 255 \<and>
       d \<le> length old \<and> d \<le> length new \<and> take d old = take d new"
proof -
  obtain d where d: "get_name_offset_loop old new 0 = d" "d \<le> 255"
      "d \<le> length old" "d \<le> length new" "take d old = take d new"
    using get_name_offset_loop_props [of 0 old new] by auto
  have "unat (of_nat d :: u8) = d" using d(2) by (simp add: unat_of_nat)
  then show ?thesis using d by (auto simp: get_name_offset_def)
qed

lemma cstr_no_nul: "0 \<notin> set bs \<Longrightarrow> cstr bs = bs"
  by (auto simp: cstr_def takeWhile_eq_all_conv)

lemma cstr_nil: "cstr [] = []"
  by (simp add: cstr_def)

lemma copy_bytes_append:
  "length bs = k \<Longrightarrow> copy_bytes_and_return_new_src (bs @ rest) k = Some (bs, rest)"
  by (simp add: copy_bytes_and_return_new_src_def)

lemma case_option_SomeE:
  assumes "(case m of None \<Rightarrow> None | Some x \<Rightarrow> f x) = Some r"
  obtains x where "m = Some x" "f x = Some r"
  using assms by (cases m) auto

lemma write_if_Some:
  "(if c then write_data_to_file fp d else Some (0, fp)) = Some (n, fp') \<Longrightarrow>
     written fp' = written fp @ (if c then d else []) \<and> n = length (if c then d else [])"
  by (auto dest: write_data_to_file_Some split: if_splits)

lemma save_entry_super_elements_written:
  assumes "save_entry_super_elements M fp fl e pidx prev = Some (n, fp', prev')"
  shows "written fp' = written fp @
           [get_name_offset prev (cstr (e_name e)),
            of_nat (length (cstr (e_name e)) - unat (get_name_offset prev (cstr (e_name e))))]
           @ (if (of_nat (length (cstr (e_name e))
                    - unat (get_name_offset prev (cstr (e_name e)))) :: u8) > 0
              then take (unat (of_nat (length (cstr (e_name e))
                    - unat (get_name_offset prev (cstr (e_name e)))) :: u8))
                    (drop (unat (get_name_offset prev (cstr (e_name e)))) prev') else [])
           @ (if fl AND FLAG_SIZE M \<noteq> 0 then le64 (e_size e) else [])
           @ (if fl AND FLAG_MODIFICATION_TIME M \<noteq> 0 then le64 (e_mtime e) else [])
           @ le32 pidx"
    and "n = length (written fp') - length (written fp)"
    and "prev' = g_string_erase prev (unat (get_name_offset prev (cstr (e_name e))))
                   @ drop (unat (get_name_offset prev (cstr (e_name e)))) (cstr (e_name e))"
proof -
  define off where "off = get_name_offset prev (cstr (e_name e))"
  define nl :: u8 where "nl = of_nat (length (cstr (e_name e)) - unat off)"
  define p' where "p' = g_string_erase prev (unat off) @ drop (unat off) (cstr (e_name e))"
  note sv = assms [unfolded save_entry_super_elements_def Let_def,
      folded off_def, folded nl_def, folded p'_def]
  from sv obtain x1 where w1: "write_data_to_file fp [off] = Some x1"
    and r1: "(case x1 of (n1, fp1) \<Rightarrow>
      (case write_data_to_file fp1 [nl] of None \<Rightarrow> None
       | Some (n2, fp2) \<Rightarrow>
      (case (if nl > 0 then write_data_to_file fp2 (take (unat nl) (drop (unat off) p'))
             else Some (0, fp2)) of None \<Rightarrow> None
       | Some (n3, fp3) \<Rightarrow>
      (case (if fl AND FLAG_SIZE M \<noteq> 0 then write_data_to_file fp3 (le64 (e_size e))
             else Some (0, fp3)) of None \<Rightarrow> None
       | Some (n4, fp4) \<Rightarrow>
      (case (if fl AND FLAG_MODIFICATION_TIME M \<noteq> 0
             then write_data_to_file fp4 (le64 (e_mtime e))
             else Some (0, fp4)) of None \<Rightarrow> None
       | Some (n5, fp5) \<Rightarrow>
      (case write_data_to_file fp5 (le32 pidx) of None \<Rightarrow> None
       | Some (n6, fp6) \<Rightarrow>
           Some (n1 + n2 + n3 + n4 + n5 + n6, fp6, p'))))))) = Some (n, fp', prev')"
    by (rule case_option_SomeE)
  obtain n1 fp1 where x1: "x1 = (n1, fp1)" by (cases x1)
  from r1 [unfolded x1 prod.case] obtain x2 where w2: "write_data_to_file fp1 [nl] = Some x2"
    and r2: "(case x2 of (n2, fp2) \<Rightarrow>
      (case (if nl > 0 then write_data_to_file fp2 (take (unat nl) (drop (unat off) p'))
             else Some (0, fp2)) of None \<Rightarrow> None
       | Some (n3, fp3) \<Rightarrow>
      (case (if fl AND FLAG_SIZE M \<noteq> 0 then write_data_to_file fp3 (le64 (e_size e))
             else Some (0, fp3)) of None \<Rightarrow> None
       | Some (n4, fp4) \<Rightarrow>
      (case (if fl AND FLAG_MODIFICATION_TIME M \<noteq> 0
             then write_data_to_file fp4 (le64 (e_mtime e))
             else Some (0, fp4)) of None \<Rightarrow> None
       | Some (n5, fp5) \<Rightarrow>
      (case write_data_to_file fp5 (le32 pidx) of None \<Rightarrow> None
       | Some (n6, fp6) \<Rightarrow>
           Some (n1 + n2 + n3 + n4 + n5 + n6, fp6, p')))))) = Some (n, fp', prev')"
    by (rule case_option_SomeE)
  obtain n2 fp2 where x2: "x2 = (n2, fp2)" by (cases x2)
  from r2 [unfolded x2 prod.case] obtain x3 where
    w3: "(if nl > 0 then write_data_to_file fp2 (take (unat nl) (drop (unat off) p'))
          else Some (0, fp2)) = Some x3"
    and r3: "(case x3 of (n3, fp3) \<Rightarrow>
      (case (if fl AND FLAG_SIZE M \<noteq> 0 then write_data_to_file fp3 (le64 (e_size e))
             else Some (0, fp3)) of None \<Rightarrow> None
       | Some (n4, fp4) \<Rightarrow>
      (case (if fl AND FLAG_MODIFICATION_TIME M \<noteq> 0
             then write_data_to_file fp4 (le64 (e_mtime e))
             else Some (0, fp4)) of None \<Rightarrow> None
       | Some (n5, fp5) \<Rightarrow>
      (case write_data_to_file fp5 (le32 pidx) of None \<Rightarrow> None
       | Some (n6, fp6) \<Rightarrow>
           Some (n1 + n2 + n3 + n4 + n5 + n6, fp6, p'))))) = Some (n, fp', prev')"
    by (rule case_option_SomeE)
  obtain n3 fp3 where x3: "x3 = (n3, fp3)" by (cases x3)
  from r3 [unfolded x3 prod.case] obtain x4 where
    w4: "(if fl AND FLAG_SIZE M \<noteq> 0 then write_data_to_file fp3 (le64 (e_size e))
          else Some (0, fp3)) = Some x4"
    and r4: "(case x4 of (n4, fp4) \<Rightarrow>
      (case (if fl AND FLAG_MODIFICATION_TIME M \<noteq> 0
             then write_data_to_file fp4 (le64 (e_mtime e))
             else Some (0, fp4)) of None \<Rightarrow> None
       | Some (n5, fp5) \<Rightarrow>
      (case write_data_to_file fp5 (le32 pidx) of None \<Rightarrow> None
       | Some (n6, fp6) \<Rightarrow>
           Some (n1 + n2 + n3 + n4 + n5 + n6, fp6, p')))) = Some (n, fp', prev')"
    by (rule case_option_SomeE)
  obtain n4 fp4 where x4: "x4 = (n4, fp4)" by (cases x4)
  from r4 [unfolded x4 prod.case] obtain x5 where
    w5: "(if fl AND FLAG_MODIFICATION_TIME M \<noteq> 0
          then write_data_to_file fp4 (le64 (e_mtime e)) else Some (0, fp4)) = Some x5"
    and r5: "(case x5 of (n5, fp5) \<Rightarrow>
      (case write_data_to_file fp5 (le32 pidx) of None \<Rightarrow> None
       | Some (n6, fp6) \<Rightarrow>
           Some (n1 + n2 + n3 + n4 + n5 + n6, fp6, p'))) = Some (n, fp', prev')"
    by (rule case_option_SomeE)
  obtain n5 fp5 where x5: "x5 = (n5, fp5)" by (cases x5)
  from r5 [unfolded x5 prod.case] obtain x6 where
    w6: "write_data_to_file fp5 (le32 pidx) = Some x6"
    and r6: "(case x6 of (n6, fp6) \<Rightarrow>
           Some (n1 + n2 + n3 + n4 + n5 + n6, fp6, p')) = Some (n, fp', prev')"
    by (rule case_option_SomeE)
  obtain n6 fp6 where x6: "x6 = (n6, fp6)" by (cases x6)
  from r6 have fin: "n = n1 + n2 + n3 + n4 + n5 + n6" "fp' = fp6" "prev' = p'"
    by (simp_all add: x6)
  note f1 = write_data_to_file_Some [OF w1 [unfolded x1]]
  note f2 = write_data_to_file_Some [OF w2 [unfolded x2]]
  note f3 = write_if_Some [OF w3 [unfolded x3]]
  note f4 = write_if_Some [OF w4 [unfolded x4]]
  note f5 = write_if_Some [OF w5 [unfolded x5]]
  note f6 = write_data_to_file_Some [OF w6 [unfolded x6]]
  have all: "written fp' = written fp @ [off, nl]
       @ (if nl > 0 then take (unat nl) (drop (unat off) p') else [])
       @ (if fl AND FLAG_SIZE M \<noteq> 0 then le64 (e_size e) else [])
       @ (if fl AND FLAG_MODIFICATION_TIME M \<noteq> 0 then le64 (e_mtime e) else [])
       @ le32 pidx"
    unfolding fin conjunct1 [OF f6] conjunct1 [OF f5] conjunct1 [OF f4] conjunct1 [OF f3]
      conjunct1 [OF f2] conjunct1 [OF f1] by simp
  show "written fp' = written fp @
           [get_name_offset prev (cstr (e_name e)),
            of_nat (length (cstr (e_name e)) - unat (get_name_offset prev (cstr (e_name e))))]
           @ (if (of_nat (length (cstr (e_name e))
                    - unat (get_name_offset prev (cstr (e_name e)))) :: u8) > 0
              then take (unat (of_nat (length (cstr (e_name e))
                    - unat (get_name_offset prev (cstr (e_name e)))) :: u8))
                    (drop (unat (get_name_offset prev (cstr (e_name e)))) prev') else [])
           @ (if fl AND FLAG_SIZE M \<noteq> 0 then le64 (e_size e) else [])
           @ (if fl AND FLAG_MODIFICATION_TIME M \<noteq> 0 then le64 (e_mtime e) else [])
           @ le32 pidx"
    using all unfolding fin(3) nl_def off_def .
  have "n = length ([off] @ [nl]
       @ (if nl > 0 then take (unat nl) (drop (unat off) p') else [])
       @ (if fl AND FLAG_SIZE M \<noteq> 0 then le64 (e_size e) else [])
       @ (if fl AND FLAG_MODIFICATION_TIME M \<noteq> 0 then le64 (e_mtime e) else [])
       @ le32 pidx)"
    unfolding fin(1) conjunct2 [OF f6] conjunct2 [OF f5] conjunct2 [OF f4] conjunct2 [OF f3]
      conjunct2 [OF f2] conjunct2 [OF f1] length_append by simp
  then show "n = length (written fp') - length (written fp)"
    unfolding all by simp
  show "prev' = g_string_erase prev (unat (get_name_offset prev (cstr (e_name e))))
                   @ drop (unat (get_name_offset prev (cstr (e_name e)))) (cstr (e_name e))"
    unfolding fin(3) p'_def off_def ..
qed

lemma save_entry_super_elements_decodes:
  assumes sv: "save_entry_super_elements M fp fl e pidx prev = Some (n, fp', prev')"
    and len: "length (e_name e) \<le> 255" and nul: "0 \<notin> set (e_name e)"
  shows "\<exists>body. written fp' = written fp @ body @ le32 pidx \<and> n = length body + 4 \<and>
           length body \<le> 273 \<and> prev' = e_name e \<and>
           (\<forall>rest e0. load_entry_super_elements_from_memory M (body @ rest) fl e0 prev =
              Some (rest,
                    e0\<lparr>e_name := e_name e,
                       e_size := (if fl AND FLAG_SIZE M \<noteq> 0 then e_size e else e_size e0),
                       e_mtime := (if fl AND FLAG_MODIFICATION_TIME M \<noteq> 0 then e_mtime e
                                   else e_mtime e0)\<rparr>,
                    e_name e))"
proof -
  define nm where "nm = e_name e"
  have cs: "cstr (e_name e) = nm" using nul by (simp add: cstr_no_nul nm_def)
  obtain d where d: "unat (get_name_offset prev nm) = d" "d \<le> 255"
      "d \<le> length prev" "d \<le> length nm" "take d prev = take d nm"
    using get_name_offset_props [of prev nm] by auto
  define nl :: u8 where "nl = of_nat (length nm - d)"
  have nl: "unat nl = length nm - d"
    using len by (simp add: nl_def nm_def unat_of_nat)
  have nl0: "nl > 0 \<longleftrightarrow> d < length nm"
    using nl by (auto simp: word_greater_zero_iff unat_eq_zero [symmetric] simp del: unat_eq_zero)
  have erase: "g_string_erase prev d = take d nm"
    using d by (simp add: g_string_erase_def)
  have prev': "prev' = nm"
    using save_entry_super_elements_written(3) [OF sv] by (simp add: cs d(1) erase)
  define sz where "sz = (if fl AND FLAG_SIZE M \<noteq> 0 then le64 (e_size e) else [])"
  define mt where "mt = (if fl AND FLAG_MODIFICATION_TIME M \<noteq> 0 then le64 (e_mtime e) else [])"
  define body where "body = [get_name_offset prev nm, nl] @ drop d nm @ sz @ mt"
  have l64: "\<And>w. length (le64 w) = 8" by (simp add: le64_def length_to_le)
  have l32: "length (le32 pidx) = 4" by (simp add: le32_def length_to_le)
  have nbytes: "(if nl > 0 then take (unat nl) (drop d nm) else []) = drop d nm"
    using nl0 nl d(4) by auto
  have wr: "written fp' = written fp @ body @ le32 pidx"
    using save_entry_super_elements_written(1) [OF sv]
    unfolding cs d(1) nl_def [symmetric] prev' nbytes
    by (simp add: body_def sz_def mt_def)
  have n: "n = length body + 4"
    using save_entry_super_elements_written(2) [OF sv] by (simp add: wr l32)
  have rd: "load_entry_super_elements_from_memory M (body @ rest) fl e0 prev =
              Some (rest,
                    e0\<lparr>e_name := nm,
                       e_size := (if fl AND FLAG_SIZE M \<noteq> 0 then e_size e else e_size e0),
                       e_mtime := (if fl AND FLAG_MODIFICATION_TIME M \<noteq> 0 then e_mtime e
                                   else e_mtime e0)\<rparr>,
                    nm)" for rest e0
  proof -
    have nocs: "cstr (drop d nm) = drop d nm"
      using nul by (intro cstr_no_nul) (auto simp: nm_def dest: in_set_dropD)
    have c1: "copy_bytes_and_return_new_src (drop d nm @ sz @ mt @ rest) (length nm - d)
                = Some (drop d nm, sz @ mt @ rest)"
      by (rule copy_bytes_append) simp
    have nil: "\<not> d < length nm \<Longrightarrow> drop d nm = []" by simp
    show ?thesis
      unfolding load_entry_super_elements_from_memory_def body_def
      by (simp add: d(1) erase nl nl0 c1 nocs nil Let_def cstr_nil
            sz_def mt_def copy_bytes_append l64 le64_roundtrip)
  qed
  have bound: "length body \<le> 273"
    using len by (auto simp: body_def sz_def mt_def l64 nm_def)
  show ?thesis
    by (rule exI [of _ body]) (use wr n prev' rd bound in \<open>simp add: nm_def\<close>)
qed

lemma save_folders_loop_decodes:
  assumes "save_folders_loop M fl folders es prev fp bw = Some (n, fp')"
    and "\<forall>e\<in>set es. length (e_name e) \<le> 255 \<and> 0 \<notin> set (e_name e)"
  shows "\<exists>blk. written fp' = written fp @ blk \<and> n = bw + length blk \<and>
           length blk \<le> 279 * length es \<and>
           (\<forall>rest pre N. length pre = length es \<longrightarrow>
              load_folders_loop M fl N pre (blk @ rest) prev =
                Some (rest, map (\<lambda>(e, p). decoded_folder M fl folders N e p) (zip es pre)))"
  using assms
proof (induction es arbitrary: prev fp bw)
  case Nil
  then show ?case by simp
next
  case (Cons e es)
  from Cons.prems(1) obtain x1 where w1: "write_data_to_file fp (le16 (e_db_index e)) = Some x1"
    and r1: "(case x1 of (n1, fp1) \<Rightarrow>
       (case save_entry_super_elements M fp1 fl e (written_parent_idx folders e) prev of
          None \<Rightarrow> None
        | Some (n2, fp2, name_prev') \<Rightarrow>
            save_folders_loop M fl folders es name_prev' fp2 (bw + n1 + n2))) = Some (n, fp')"
    unfolding save_folders_loop.simps Let_def written_parent_idx_def [symmetric]
    by (rule case_option_SomeE)
  obtain n1 fp1 where x1: "x1 = (n1, fp1)" by (cases x1)
  from r1 [unfolded x1 prod.case] obtain x2 where
    w2: "save_entry_super_elements M fp1 fl e (written_parent_idx folders e) prev = Some x2"
    and r2: "(case x2 of (n2, fp2, name_prev') \<Rightarrow>
            save_folders_loop M fl folders es name_prev' fp2 (bw + n1 + n2)) = Some (n, fp')"
    by (rule case_option_SomeE)
  obtain n2 fp2 prev' where x2: "x2 = (n2, fp2, prev')" by (cases x2)
  have r3: "save_folders_loop M fl folders es prev' fp2 (bw + n1 + n2) = Some (n, fp')"
    using r2 by (simp add: x2)
  have nm: "length (e_name e) \<le> 255" "0 \<notin> set (e_name e)"
    and rest_ok: "\<forall>e\<in>set es. length (e_name e) \<le> 255 \<and> 0 \<notin> set (e_name e)"
    using Cons.prems(2) by auto
  from save_entry_super_elements_decodes [OF w2 [unfolded x2] nm]
  obtain body where body: "written fp2 = written fp1 @ body @ le32 (written_parent_idx folders e)"
      "n2 = length body + 4" "length body \<le> 273" "prev' = e_name e"
      "\<And>rest e0. load_entry_super_elements_from_memory M (body @ rest) fl e0 prev =
           Some (rest, decoded_super M fl e e0, e_name e)"
    unfolding decoded_super_def by blast
  from Cons.IH [OF r3 rest_ok]
  obtain blk where blk: "written fp' = written fp2 @ blk" "n = bw + n1 + n2 + length blk"
      "length blk \<le> 279 * length es"
      "\<And>rest pre N. length pre = length es \<Longrightarrow>
          load_folders_loop M fl N pre (blk @ rest) prev' =
            Some (rest, map (\<lambda>(e, p). decoded_folder M fl folders N e p) (zip es pre))"
    by blast
  have l16: "length (le16 (e_db_index e)) = 2" by (simp add: le16_def length_to_le)
  have l32: "length (le32 (written_parent_idx folders e)) = 4" by (simp add: le32_def length_to_le)
  note f1 = write_data_to_file_Some [OF w1 [unfolded x1]]
  define all where "all = le16 (e_db_index e) @ body @ le32 (written_parent_idx folders e) @ blk"
  have A: "written fp' = written fp @ all"
    by (simp add: blk(1) body(1) f1 all_def)
  have B: "n = bw + length all"
    by (simp add: blk(2) body(2) f1 all_def l16 l32)
  have C: "length all \<le> 279 * length (e # es)"
    using blk(3) body(3) by (simp add: all_def l16 l32)
  have D: "load_folders_loop M fl N pre (all @ rest) prev =
             Some (rest, map (\<lambda>(e, p). decoded_folder M fl folders N e p) (zip (e # es) pre))"
    if "length pre = length (e # es)" for rest pre N
  proof -
    from that obtain p ps where pre: "pre = p # ps" "length ps = length es"
      by (cases pre) auto
    have c1: "copy_bytes_and_return_new_src
                (le16 (e_db_index e) @ body @ le32 (written_parent_idx folders e) @ blk @ rest) 2
              = Some (le16 (e_db_index e), body @ le32 (written_parent_idx folders e) @ blk @ rest)"
      by (rule copy_bytes_append) (rule l16)
    have c2: "copy_bytes_and_return_new_src (le32 (written_parent_idx folders e) @ blk @ rest) 4
              = Some (le32 (written_parent_idx folders e), blk @ rest)"
      by (rule copy_bytes_append) (rule l32)
    have idx: "e_idx (decoded_super M fl e p) = e_idx p" by (simp add: decoded_super_def)
    show ?thesis
      unfolding pre all_def
      by (simp add: c1 c2 body(5) blk(4) [OF pre(2), unfolded body(4)] le32_roundtrip idx
            decoded_folder_def Let_def)
  qed
  show ?case
    by (rule exI [of _ all]) (use A B C D in blast)
qed

lemma save_files_loop_decodes:
  assumes "save_files_loop M fl folders es i prev fp bw = Some (n, fp', es')"
    and "\<forall>e\<in>set es. length (e_name e) \<le> 255 \<and> 0 \<notin> set (e_name e)"
  shows "\<exists>blk. written fp' = written fp @ blk \<and> n = bw + length blk \<and>
           length blk \<le> 277 * length es \<and>
           (\<forall>rest N.
              load_files_loop M fl blank N (length es) i (blk @ rest) prev =
                Some (rest, map (\<lambda>(j, e). decoded_file M fl blank folders N e j) (enumerate i es)))"
  using assms
proof (induction es arbitrary: i prev fp bw es' n fp')
  case Nil
  then show ?case by simp
next
  case (Cons e es)
  define e' where "e' = e\<lparr>e_idx := of_nat i\<rparr>"
  define pidx where "pidx = db_entry_get_idx
      (case e_parent e of Some p \<Rightarrow> darray_get_item folders p | None \<Rightarrow> None)"
  have pidx': "db_entry_get_idx
      (case e_parent e' of Some p \<Rightarrow> darray_get_item folders p | None \<Rightarrow> None) = pidx"
    by (simp add: pidx_def e'_def)
  from Cons.prems(1) obtain x1 where
    w1: "save_entry_super_elements M fp fl e' pidx prev = Some x1"
    and r1: "(case x1 of (k, fp1, name_prev') \<Rightarrow>
       (case save_files_loop M fl folders es (Suc i) name_prev' fp1 (bw + k) of
          None \<Rightarrow> None
        | Some (bytes, fp2, rest') \<Rightarrow> Some (bytes, fp2, e' # rest'))) = Some (n, fp', es')"
    unfolding save_files_loop.simps Let_def e'_def [symmetric] pidx'
    by (rule case_option_SomeE)
  obtain k fp1 prev' where x1: "x1 = (k, fp1, prev')" by (cases x1)
  from r1 [unfolded x1 prod.case] obtain x2 where
    w2: "save_files_loop M fl folders es (Suc i) prev' fp1 (bw + k) = Some x2"
    and r2: "(case x2 of (bytes, fp2, rest') \<Rightarrow> Some (bytes, fp2, e' # rest')) = Some (n, fp', es')"
    by (rule case_option_SomeE)
  obtain n' fp2 rest' where x2: "x2 = (n', fp2, rest')" by (cases x2)
  have fin: "n = n'" "fp' = fp2" using r2 by (simp_all add: x2)
  have nm: "length (e_name e') \<le> 255" "0 \<notin> set (e_name e')"
    and rest_ok: "\<forall>e\<in>set es. length (e_name e) \<le> 255 \<and> 0 \<notin> set (e_name e)"
    using Cons.prems(2) by (auto simp: e'_def)
  have ds: "decoded_super M fl e' e0 = decoded_super M fl e e0" for e0
    by (simp add: decoded_super_def e'_def)
  from save_entry_super_elements_decodes [OF w1 [unfolded x1] nm]
  obtain body where body: "written fp1 = written fp @ body @ le32 pidx"
      "k = length body + 4" "length body \<le> 273" "prev' = e_name e"
      "\<And>rest e0. load_entry_super_elements_from_memory M (body @ rest) fl e0 prev =
           Some (rest, decoded_super M fl e e0, e_name e)"
    unfolding decoded_super_def [symmetric] ds by (auto simp: e'_def)
  from Cons.IH [OF w2 [unfolded x2] rest_ok]
  obtain blk where blk: "written fp2 = written fp1 @ blk" "n' = bw + k + length blk"
      "length blk \<le> 277 * length es"
      "\<And>rest N. load_files_loop M fl blank N (length es) (Suc i) (blk @ rest) prev' =
          Some (rest, map (\<lambda>(j, e). decoded_file M fl blank folders N e j) (enumerate (Suc i) es))"
    by blast
  have l32: "length (le32 pidx) = 4" by (simp add: le32_def length_to_le)
  define all where "all = body @ le32 pidx @ blk"
  have A: "written fp' = written fp @ all"
    by (simp add: fin blk(1) body(1) all_def)
  have B: "n = bw + length all"
    by (simp add: fin blk(2) body(2) all_def l32)
  have C: "length all \<le> 277 * length (e # es)"
    using blk(3) body(3) by (simp add: all_def l32)
  have D: "load_files_loop M fl blank N (length (e # es)) i (all @ rest) prev =
             Some (rest, map (\<lambda>(j, e). decoded_file M fl blank folders N e j)
                           (enumerate i (e # es)))" for rest N
  proof -
    have c2: "copy_bytes_and_return_new_src (le32 pidx @ blk @ rest) 4
              = Some (le32 pidx, blk @ rest)"
      by (rule copy_bytes_append) (rule l32)
    show ?thesis
      unfolding all_def
      by (simp add: c2 body(5) blk(4) [unfolded body(4)] le32_roundtrip
            decoded_file_def Let_def pidx_def [symmetric])
  qed
  show ?case
    by (rule exI [of _ all]) (use A B C D in blast)
qed

lemma length_update_folder_indices [simp]: "length (update_folder_indices fs) = length fs"
  by (simp add: update_folder_indices_def)

lemma nth_update_folder_indices:
  "i < length fs \<Longrightarrow> update_folder_indices fs ! i = (fs ! i)\<lparr>e_idx := of_nat i\<rparr>"
  by (simp add: update_folder_indices_def nth_enumerate_eq)

lemma unat_of_nat_u32: "n < 2 ^ 32 \<Longrightarrow> unat (of_nat n :: u32) = n"
  by (simp add: unat_of_nat)

lemma unat_of_nat_u64: "n < 2 ^ 64 \<Longrightarrow> unat (of_nat n :: u64) = n"
  by (simp add: unat_of_nat)

lemma length_preallocate_folders [simp]:
  "length (preallocate_folders blank k) = unat k"
  by (simp add: preallocate_folders_def)

lemma nth_preallocate_folders:
  "i < unat k \<Longrightarrow> preallocate_folders blank k ! i =
     blank\<lparr>e_idx := of_nat i, e_type := DATABASE_ENTRY_TYPE_FOLDER, e_parent := None\<rparr>"
  by (simp add: preallocate_folders_def)

lemma of_nat_u32_inj:
  "q < 2 ^ 32 \<Longrightarrow> i < 2 ^ 32 \<Longrightarrow> (of_nat q :: u32) = of_nat i \<Longrightarrow> q = i"
  using unat_of_nat_u32 by metis

text \<open>
  C2, amended: for a store whose folder and file counts fit 32 bits, whose entry names
  are C strings of at most 255 bytes, whose folder parents are other folders of the
  folder array and whose files all have a parent in it: if writing the folder block
  and the file block succeeds, then decoding the two blocks (the folders into the
  entries allocated in advance, the files into fresh pool entries) succeeds, consumes
  exactly the two blocks and yields entries with the same names, types and parent
  links, the same sizes when the \<open>Size\<close> flag is set and the same modification times
  when the \<open>ModificationTime\<close> flag is set.  Without the flag the field is not stored,
  and every decoded entry has the value of the pool entry \<open>blank\<close> there.  The decoded
  \<open>idx\<close> is the position in the block.
\<close>

theorem snapshot_blocks_roundtrip:
  assumes counts: "length fs < 2 ^ 32" "length xs < 2 ^ 32"
    and names: "\<forall>e\<in>set (fs @ xs). length (e_name e) \<le> 255 \<and> 0 \<notin> set (e_name e)"
    and fparents: "\<forall>i<length fs. \<forall>q. e_parent (fs ! i) = Some q \<longrightarrow> q < length fs \<and> q \<noteq> i"
    and xparents: "\<forall>x\<in>set xs. \<exists>q. e_parent x = Some q \<and> q < length fs"
    and ftypes: "\<forall>e\<in>set fs. e_type e = DATABASE_ENTRY_TYPE_FOLDER"
    and xtypes: "\<forall>e\<in>set xs. e_type e = DATABASE_ENTRY_TYPE_FILE"
    and sf: "save_folders M fp0 fl (update_folder_indices fs) (of_nat (length fs)) = Some (n1, fp1)"
    and sx: "save_files M fp1 fl (update_folder_indices fs) xs (of_nat (length xs))
               = Some (n2, fp2, xs')"
  shows "\<exists>fs' ys.
      load_folders M (drop (length (written fp0)) (written fp2) @ tail) fl
          (preallocate_folders blank (of_nat (length fs))) (of_nat (length fs)) (of_nat n1)
        = Loaded (fs', drop (length (written fp1)) (written fp2) @ tail) \<and>
      load_files M (drop (length (written fp1)) (written fp2) @ tail) fl blank fs' []
          (of_nat (length xs)) (of_nat n2)
        = Loaded (ys, tail) \<and>
      map e_name fs' = map e_name fs \<and> map e_name ys = map e_name xs \<and>
      map e_type fs' = map e_type fs \<and> map e_type ys = map e_type xs \<and>
      map e_parent fs' = map e_parent fs \<and> map e_parent ys = map e_parent xs \<and>
      (fl AND FLAG_SIZE M \<noteq> 0 \<longrightarrow>
         map e_size fs' = map e_size fs \<and> map e_size ys = map e_size xs) \<and>
      (fl AND FLAG_SIZE M = 0 \<longrightarrow>
         map e_size fs' = replicate (length fs) (e_size blank) \<and>
         map e_size ys = replicate (length xs) (e_size blank)) \<and>
      (fl AND FLAG_MODIFICATION_TIME M \<noteq> 0 \<longrightarrow>
         map e_mtime fs' = map e_mtime fs \<and> map e_mtime ys = map e_mtime xs) \<and>
      (fl AND FLAG_MODIFICATION_TIME M = 0 \<longrightarrow>
         map e_mtime fs' = replicate (length fs) (e_mtime blank) \<and>
         map e_mtime ys = replicate (length xs) (e_mtime blank)) \<and>
      map e_idx fs' = map of_nat [0..<length fs] \<and>
      map e_idx ys = map of_nat [0..<length xs]"
proof -
  define folders where "folders = update_folder_indices fs"
  define L where "L = length fs"
  define pre where "pre = preallocate_folders blank (of_nat L)"
  have uL: "unat (of_nat L :: u32) = L" using counts(1) by (simp add: L_def unat_of_nat_u32)
  have uX: "unat (of_nat (length xs) :: u32) = length xs"
    using counts(2) by (simp add: unat_of_nat_u32)
  have lf: "length folders = L" by (simp add: folders_def L_def)
  have lpre: "length pre = L" by (simp add: pre_def uL)
  have fnames: "\<forall>e\<in>set folders. length (e_name e) \<le> 255 \<and> 0 \<notin> set (e_name e)"
  proof
    fix e assume "e \<in> set folders"
    then obtain i where i: "i < L" "e = folders ! i" by (auto simp: in_set_conv_nth lf)
    then have "e_name e = e_name (fs ! i)"
      by (simp add: folders_def L_def nth_update_folder_indices)
    moreover have "fs ! i \<in> set (fs @ xs)" using i by (simp add: L_def)
    ultimately show "length (e_name e) \<le> 255 \<and> 0 \<notin> set (e_name e)" using names by metis
  qed
  have xnames: "\<forall>e\<in>set xs. length (e_name e) \<le> 255 \<and> 0 \<notin> set (e_name e)"
    using names by simp
  have sf': "save_folders_loop M fl folders folders [] fp0 0 = Some (n1, fp1)"
    using sf by (simp add: save_folders_def folders_def [symmetric] L_def [symmetric] uL lf)
  from save_folders_loop_decodes [OF sf' fnames]
  obtain blk1 where blk1: "written fp1 = written fp0 @ blk1" "n1 = length blk1"
      "length blk1 \<le> 279 * L"
      "\<And>rest pre N. length pre = L \<Longrightarrow>
         load_folders_loop M fl N pre (blk1 @ rest) [] =
           Some (rest, map (\<lambda>(e, p). decoded_folder M fl folders N e p) (zip folders pre))"
    by (auto simp: lf)
  obtain n2' fp2' xs'' where sx': "save_files_loop M fl folders xs 0 [] fp1 0 = Some (n2', fp2', xs'')"
    and sxe: "n2 = n2'" "fp2 = fp2'"
    using sx by (auto simp: save_files_def folders_def [symmetric] uX split: option.splits)
  from save_files_loop_decodes [OF sx' xnames, of blank]
  obtain blk2 where blk2: "written fp2 = written fp1 @ blk2" "n2 = length blk2"
      "length blk2 \<le> 277 * length xs"
      "\<And>rest N. load_files_loop M fl blank N (length xs) 0 (blk2 @ rest) [] =
          Some (rest, map (\<lambda>(j, e). decoded_file M fl blank folders N e j) (enumerate 0 xs))"
    by (auto simp: sxe)
  have un1: "unat (of_nat n1 :: u64) = n1"
  proof -
    have "n1 < 279 * 2 ^ 32" using blk1(2,3) counts(1) by (simp add: L_def)
    also have "\<dots> < (2 :: nat) ^ 64" by simp
    finally show ?thesis by (rule unat_of_nat_u64)
  qed
  have un2: "unat (of_nat n2 :: u64) = n2"
  proof -
    have "n2 < 277 * 2 ^ 32" using blk2(2,3) counts(2) by simp
    also have "\<dots> < (2 :: nat) ^ 64" by simp
    finally show ?thesis by (rule unat_of_nat_u64)
  qed
  define fs' where "fs' = map (\<lambda>(e, p). decoded_folder M fl folders L e p) (zip folders pre)"
  define ys where "ys = map (\<lambda>(j, e). decoded_file M fl blank folders L e j) (enumerate 0 xs)"
  have lfs': "length fs' = L" by (simp add: fs'_def lf lpre)
  have lys: "length ys = length xs" by (simp add: ys_def)
  have d0: "drop (length (written fp0)) (written fp2) = blk1 @ blk2"
    by (simp add: blk1(1) blk2(1))
  have d1: "drop (length (written fp1)) (written fp2) = blk2"
    by (simp add: blk2(1))
  have LF: "load_folders M (drop (length (written fp0)) (written fp2) @ tail) fl
          (preallocate_folders blank (of_nat (length fs))) (of_nat (length fs)) (of_nat n1)
        = Loaded (fs', drop (length (written fp1)) (written fp2) @ tail)"
    unfolding d0 d1 load_folders_def L_def [symmetric] pre_def [symmetric]
    using blk1(4) [OF lpre, of "length pre" "[0]"]
    by (simp add: un1 [unfolded blk1(2)] uL fread_bytes_def blk1(2) lpre fs'_def)
  have LX: "load_files M (drop (length (written fp1)) (written fp2) @ tail) fl blank fs' []
          (of_nat (length xs)) (of_nat n2) = Loaded (ys, tail)"
    unfolding d1 load_files_def
    using blk2(4) [of "length fs'" "[0]"]
    by (simp add: un2 [unfolded blk2(2)] uX fread_bytes_def blk2(2) lfs' ys_def)
  have fi: "fs' ! i = decoded_folder M fl folders L ((fs ! i)\<lparr>e_idx := of_nat i\<rparr>)
              (blank\<lparr>e_idx := of_nat i, e_type := DATABASE_ENTRY_TYPE_FOLDER, e_parent := None\<rparr>)"
    if "i < L" for i
  proof -
    have "fs' ! i = decoded_folder M fl folders L (folders ! i) (pre ! i)"
      using that by (simp add: fs'_def lf lpre)
    moreover have "folders ! i = (fs ! i)\<lparr>e_idx := of_nat i\<rparr>"
      using that by (simp add: folders_def nth_update_folder_indices L_def)
    moreover have "pre ! i =
        blank\<lparr>e_idx := of_nat i, e_type := DATABASE_ENTRY_TYPE_FOLDER, e_parent := None\<rparr>"
      using that by (simp add: pre_def nth_preallocate_folders uL)
    ultimately show ?thesis by simp
  qed
  have yi: "ys ! i = decoded_file M fl blank folders L (xs ! i) i" if "i < length xs" for i
    using that by (simp add: ys_def nth_enumerate_eq)
  have fidx: "db_entry_get_idx (darray_get_item folders q) = of_nat q" if "q < L" for q
    using that
    by (simp add: db_entry_get_idx_def darray_get_item_def lf folders_def
          nth_update_folder_indices L_def)
  have fpar: "e_parent (fs' ! i) = e_parent (fs ! i)" if i: "i < L" for i
  proof (cases "e_parent (fs ! i)")
    case None
    have wp: "written_parent_idx folders ((fs ! i)\<lparr>e_idx := of_nat i\<rparr>) = of_nat i"
      by (simp add: written_parent_idx_def None)
    show ?thesis
      unfolding fi [OF i] decoded_folder_def wp by (simp add: None)
  next
    case (Some q)
    have il: "i < length fs" using i by (simp add: L_def)
    have q: "q < L" "q \<noteq> i"
      using fparents [rule_format, OF il Some] by (simp_all add: L_def)
    have q32: "q < 2 ^ 32" "i < 2 ^ 32" using q(1) i counts(1) by (simp_all add: L_def)
    have neq: "(of_nat q :: u32) \<noteq> of_nat i"
      using of_nat_u32_inj [OF q32] q(2) by blast
    have uq: "unat (of_nat q :: u32) = q" using q32(1) by (rule unat_of_nat_u32)
    have wp: "written_parent_idx folders ((fs ! i)\<lparr>e_idx := of_nat i\<rparr>) = of_nat q"
      by (simp add: written_parent_idx_def Some fidx [OF q(1)])
    have ei: "e_idx (blank\<lparr>e_idx := of_nat i, e_type := DATABASE_ENTRY_TYPE_FOLDER,
                e_parent := None\<rparr>) = of_nat i"
      by simp
    show ?thesis
      unfolding fi [OF i] decoded_folder_def wp ei uq
      using neq q(1) by (simp add: Some)
  qed
  have ypar: "e_parent (ys ! i) = e_parent (xs ! i)" if i: "i < length xs" for i
  proof -
    have "xs ! i \<in> set xs" using i by simp
    with xparents obtain q where q: "e_parent (xs ! i) = Some q" "q < L"
      unfolding L_def by blast
    have uq: "unat (of_nat q :: u32) = q" using q counts(1) by (simp add: unat_of_nat_u32 L_def)
    show ?thesis
      by (simp add: yi [OF i] decoded_file_def decoded_super_def q fidx uq)
  qed
  have lfs: "length fs' = length fs" by (simp add: lfs' L_def)
  have fL: "i < L" if "i < length fs" for i using that by (simp add: L_def)
  have ft: "e_type (fs ! i) = DATABASE_ENTRY_TYPE_FOLDER" if "i < length fs" for i
    using ftypes that by simp
  have xt: "e_type (xs ! i) = DATABASE_ENTRY_TYPE_FILE" if "i < length xs" for i
    using xtypes that by simp
  have P1: "map e_name fs' = map e_name fs"
    by (rule nth_equalityI) (simp_all add: lfs fi [OF fL] decoded_folder_def decoded_super_def)
  have P2: "map e_name ys = map e_name xs"
    by (rule nth_equalityI) (simp_all add: lys yi decoded_file_def decoded_super_def)
  have P3: "map e_type fs' = map e_type fs"
    by (rule nth_equalityI)
      (simp_all add: lfs fi [OF fL] ft decoded_folder_def decoded_super_def)
  have P4: "map e_type ys = map e_type xs"
    by (rule nth_equalityI) (simp_all add: lys yi xt decoded_file_def decoded_super_def)
  have P5: "map e_parent fs' = map e_parent fs"
    by (rule nth_equalityI) (simp_all add: lfs fpar [OF fL])
  have P6: "map e_parent ys = map e_parent xs"
    by (rule nth_equalityI) (simp_all add: lys ypar)
  have P7: "map e_size fs' = map e_size fs \<and> map e_size ys = map e_size xs"
    if "fl AND FLAG_SIZE M \<noteq> 0"
  proof
    show "map e_size fs' = map e_size fs"
      by (rule nth_equalityI)
        (simp_all add: that lfs fi [OF fL] decoded_folder_def decoded_super_def)
    show "map e_size ys = map e_size xs"
      by (rule nth_equalityI) (simp_all add: that lys yi decoded_file_def decoded_super_def)
  qed
  have P8: "map e_mtime fs' = map e_mtime fs \<and> map e_mtime ys = map e_mtime xs"
    if "fl AND FLAG_MODIFICATION_TIME M \<noteq> 0"
  proof
    show "map e_mtime fs' = map e_mtime fs"
      by (rule nth_equalityI)
        (simp_all add: that lfs fi [OF fL] decoded_folder_def decoded_super_def)
    show "map e_mtime ys = map e_mtime xs"
      by (rule nth_equalityI) (simp_all add: that lys yi decoded_file_def decoded_super_def)
  qed
  have P9: "map e_size fs' = replicate (length fs) (e_size blank) \<and>
            map e_size ys = replicate (length xs) (e_size blank)"
    if "fl AND FLAG_SIZE M = 0"
  proof
    show "map e_size fs' = replicate (length fs) (e_size blank)"
      by (rule nth_equalityI)
        (simp_all add: that lfs fi [OF fL] decoded_folder_def decoded_super_def)
    show "map e_size ys = replicate (length xs) (e_size blank)"
      by (rule nth_equalityI) (simp_all add: that lys yi decoded_file_def decoded_super_def)
  qed
  have P10: "map e_mtime fs' = replicate (length fs) (e_mtime blank) \<and>
             map e_mtime ys = replicate (length xs) (e_mtime blank)"
    if "fl AND FLAG_MODIFICATION_TIME M = 0"
  proof
    show "map e_mtime fs' = replicate (length fs) (e_mtime blank)"
      by (rule nth_equalityI)
        (simp_all add: that lfs fi [OF fL] decoded_folder_def decoded_super_def)
    show "map e_mtime ys = replicate (length xs) (e_mtime blank)"
      by (rule nth_equalityI) (simp_all add: that lys yi decoded_file_def decoded_super_def)
  qed
  have P11: "map e_idx fs' = map of_nat [0..<length fs]"
    by (rule nth_equalityI)
      (simp_all add: lfs fi [OF fL] decoded_folder_def decoded_super_def)
  have P12: "map e_idx ys = map of_nat [0..<length xs]"
    by (rule nth_equalityI) (simp_all add: lys yi decoded_file_def decoded_super_def)
  have concl: "load_folders M (drop (length (written fp0)) (written fp2) @ tail) fl
          (preallocate_folders blank (of_nat (length fs))) (of_nat (length fs)) (of_nat n1)
        = Loaded (fs', drop (length (written fp1)) (written fp2) @ tail) \<and>
      load_files M (drop (length (written fp1)) (written fp2) @ tail) fl blank fs' []
          (of_nat (length xs)) (of_nat n2)
        = Loaded (ys, tail) \<and>
      map e_name fs' = map e_name fs \<and> map e_name ys = map e_name xs \<and>
      map e_type fs' = map e_type fs \<and> map e_type ys = map e_type xs \<and>
      map e_parent fs' = map e_parent fs \<and> map e_parent ys = map e_parent xs \<and>
      (fl AND FLAG_SIZE M \<noteq> 0 \<longrightarrow>
         map e_size fs' = map e_size fs \<and> map e_size ys = map e_size xs) \<and>
      (fl AND FLAG_SIZE M = 0 \<longrightarrow>
         map e_size fs' = replicate (length fs) (e_size blank) \<and>
         map e_size ys = replicate (length xs) (e_size blank)) \<and>
      (fl AND FLAG_MODIFICATION_TIME M \<noteq> 0 \<longrightarrow>
         map e_mtime fs' = map e_mtime fs \<and> map e_mtime ys = map e_mtime xs) \<and>
      (fl AND FLAG_MODIFICATION_TIME M = 0 \<longrightarrow>
         map e_mtime fs' = replicate (length fs) (e_mtime blank) \<and>
         map e_mtime ys = replicate (length xs) (e_mtime blank)) \<and>
      map e_idx fs' = map of_nat [0..<length fs] \<and>
      map e_idx ys = map of_nat [0..<length xs]"
    using LF LX P1 P2 P3 P4 P5 P6 P7 P8 P9 P10 P11 P12 by (intro conjI impI) simp_all
  show ?thesis
    by (rule exI [of _ fs'], rule exI [of _ ys]) (rule concl)
qed


text \<open>
  A store of two folders and one file, written with the \<open>Size\<close> flag set and the
  \<open>ModificationTime\<close> flag clear (the masks 4 and 8 stand in for the two flag bits) and
  read back: the sizes return, the modification times 1, 2 and 3 come back as the pool
  entry's 0.
\<close>

theorem snapshot_blocks_roundtrip_witness:
  "\<exists>fs' ys.
     load_folders \<lparr>FLAG_SIZE = 4, FLAG_MODIFICATION_TIME = 8\<rparr>
       [0, 0, 0, 2, 47, 97, 5, 0, 0, 0, 0, 0, 0, 0, 0, 0, 0, 0, 0, 0, 0, 1,
        98, 3, 0, 0, 0, 0, 0, 0, 0, 0, 0, 0, 0, 0, 1, 99, 7, 0, 0, 0, 0, 0,
        0, 0, 1, 0, 0, 0] 4
       (preallocate_folders
          \<lparr>e_type = DATABASE_ENTRY_TYPE_NONE, e_name = [], e_parent = None, e_size = 0,
             e_mtime = 0, e_idx = 0, e_db_index = 0\<rparr> 2) 2 35
       = Loaded (fs', [0, 1, 99, 7, 0, 0, 0, 0, 0, 0, 0, 1, 0, 0, 0]) \<and>
     load_files \<lparr>FLAG_SIZE = 4, FLAG_MODIFICATION_TIME = 8\<rparr>
       [0, 1, 99, 7, 0, 0, 0, 0, 0, 0, 0, 1, 0, 0, 0] 4
       \<lparr>e_type = DATABASE_ENTRY_TYPE_NONE, e_name = [], e_parent = None, e_size = 0,
          e_mtime = 0, e_idx = 0, e_db_index = 0\<rparr> fs' [] 1 15
       = Loaded (ys, []) \<and>
     map e_name fs' = [[47, 97], [98]] \<and> map e_name ys = [[99]] \<and>
     map e_parent fs' = [None, Some 0] \<and> map e_parent ys = [Some 1] \<and>
     map e_size fs' = [5, 3] \<and> map e_size ys = [7] \<and>
     map e_mtime fs' = [0, 0] \<and> map e_mtime ys = [0] \<and>
     map e_idx fs' = [0, 1] \<and> map e_idx ys = [0]"
proof -
  define M0 where "M0 = \<lparr>FLAG_SIZE = 4, FLAG_MODIFICATION_TIME = 8\<rparr>"
  define fs0 where "fs0 =
     [\<lparr>e_type = DATABASE_ENTRY_TYPE_FOLDER, e_name = [47, 97], e_parent = None, e_size = 5,
         e_mtime = 1, e_idx = 7, e_db_index = 0\<rparr>,
      \<lparr>e_type = DATABASE_ENTRY_TYPE_FOLDER, e_name = [98], e_parent = Some 0, e_size = 3,
         e_mtime = 2, e_idx = 9, e_db_index = 0\<rparr>]"
  define xs0 where "xs0 =
     [\<lparr>e_type = DATABASE_ENTRY_TYPE_FILE, e_name = [99], e_parent = Some 1, e_size = 7,
         e_mtime = 3, e_idx = 4, e_db_index = 0\<rparr>]"
  define fp0 where "fp0 = \<lparr>written = [], room = 100\<rparr>"
  define fp1 where "fp1 = \<lparr>written =
      [0, 0, 0, 2, 47, 97, 5, 0, 0, 0, 0, 0, 0, 0, 0, 0, 0, 0, 0, 0, 0, 1,
       98, 3, 0, 0, 0, 0, 0, 0, 0, 0, 0, 0, 0], room = 65\<rparr>"
  define fp2 where "fp2 = \<lparr>written =
      [0, 0, 0, 2, 47, 97, 5, 0, 0, 0, 0, 0, 0, 0, 0, 0, 0, 0, 0, 0, 0, 1,
       98, 3, 0, 0, 0, 0, 0, 0, 0, 0, 0, 0, 0, 0, 1, 99, 7, 0, 0, 0, 0, 0,
       0, 0, 1, 0, 0, 0], room = 50\<rparr>"
  define xs1 where "xs1 =
     [\<lparr>e_type = DATABASE_ENTRY_TYPE_FILE, e_name = [99], e_parent = Some 1, e_size = 7,
         e_mtime = 3, e_idx = 0, e_db_index = 0\<rparr>]"
  have h1: "length fs0 < 2 ^ 32" "length xs0 < 2 ^ 32" by (simp_all add: fs0_def xs0_def)
  have h2: "\<forall>e\<in>set (fs0 @ xs0). length (e_name e) \<le> 255 \<and> 0 \<notin> set (e_name e)"
    by (simp add: fs0_def xs0_def)
  have h3: "\<forall>i<length fs0. \<forall>q. e_parent (fs0 ! i) = Some q \<longrightarrow> q < length fs0 \<and> q \<noteq> i"
    by (simp add: fs0_def less_Suc_eq)
  have h4: "\<forall>x\<in>set xs0. \<exists>q. e_parent x = Some q \<and> q < length fs0"
    by (simp add: fs0_def xs0_def)
  have h5: "\<forall>e\<in>set fs0. e_type e = DATABASE_ENTRY_TYPE_FOLDER" by (simp add: fs0_def)
  have h6: "\<forall>e\<in>set xs0. e_type e = DATABASE_ENTRY_TYPE_FILE" by (simp add: xs0_def)
  have h7: "save_folders M0 fp0 4 (update_folder_indices fs0) (of_nat (length fs0))
              = Some (35, fp1)"
    unfolding M0_def fp0_def fs0_def fp1_def by code_simp
  have h8: "save_files M0 fp1 4 (update_folder_indices fs0) xs0 (of_nat (length xs0))
              = Some (15, fp2, xs1)"
    unfolding M0_def fs0_def fp1_def fp2_def xs0_def xs1_def by code_simp
  have fl: "(4 :: u64) AND FLAG_SIZE M0 \<noteq> 0" "(4 :: u64) AND FLAG_MODIFICATION_TIME M0 = 0"
    by (simp_all add: M0_def)
  from snapshot_blocks_roundtrip [where tail = "[]" and blank =
      "\<lparr>e_type = DATABASE_ENTRY_TYPE_NONE, e_name = [], e_parent = None, e_size = 0,
          e_mtime = 0, e_idx = 0, e_db_index = 0\<rparr>", OF h1 h2 h3 h4 h5 h6 h7 h8] fl
  show ?thesis
    by (auto simp: M0_def fs0_def xs0_def fp0_def fp1_def fp2_def)
qed

text \<open>
  C2, as stated, fails.  A store written without the \<open>Size\<close> flag loses its sizes (the
  root's 5 comes back as the pool entry's 0), and a name of 256 bytes has
  \<^verbatim>\<open>name_len = 256\<close> truncated to the \<^verbatim>\<open>uint8_t\<close> 0: the folder comes back with the
  empty name.
\<close>

theorem snapshot_roundtrip_counterexample:
  "save_folders \<lparr>FLAG_SIZE = 4, FLAG_MODIFICATION_TIME = 8\<rparr> \<lparr>written = [], room = 100\<rparr> 0
     (update_folder_indices
        [\<lparr>e_type = DATABASE_ENTRY_TYPE_FOLDER, e_name = [114], e_parent = None, e_size = 5,
            e_mtime = 0, e_idx = 0, e_db_index = 0\<rparr>,
         \<lparr>e_type = DATABASE_ENTRY_TYPE_FOLDER, e_name = replicate 256 97, e_parent = Some 0,
            e_size = 0, e_mtime = 0, e_idx = 0, e_db_index = 0\<rparr>]) 2
     = Some (17, \<lparr>written = [0, 0, 0, 1, 114, 0, 0, 0, 0, 0, 0, 0, 0, 0, 0, 0, 0],
                   room = 83\<rparr>) \<and>
   load_folders \<lparr>FLAG_SIZE = 4, FLAG_MODIFICATION_TIME = 8\<rparr>
     [0, 0, 0, 1, 114, 0, 0, 0, 0, 0, 0, 0, 0, 0, 0, 0, 0] 0
     (preallocate_folders
        \<lparr>e_type = DATABASE_ENTRY_TYPE_NONE, e_name = [], e_parent = None, e_size = 0,
           e_mtime = 0, e_idx = 0, e_db_index = 0\<rparr> 2) 2 17
     = Loaded
         ([\<lparr>e_type = DATABASE_ENTRY_TYPE_FOLDER, e_name = [114], e_parent = None, e_size = 0,
              e_mtime = 0, e_idx = 0, e_db_index = 0\<rparr>,
           \<lparr>e_type = DATABASE_ENTRY_TYPE_FOLDER, e_name = [], e_parent = Some 0, e_size = 0,
              e_mtime = 0, e_idx = 1, e_db_index = 0\<rparr>], []) \<and>
   e_size \<lparr>e_type = DATABASE_ENTRY_TYPE_FOLDER, e_name = [114], e_parent = None, e_size = 0,
            e_mtime = 0, e_idx = 0, e_db_index = 0\<rparr> \<noteq> 5 \<and>
   e_name \<lparr>e_type = DATABASE_ENTRY_TYPE_FOLDER, e_name = [], e_parent = Some 0, e_size = 0,
            e_mtime = 0, e_idx = 1, e_db_index = 0\<rparr> \<noteq> replicate 256 97"
  by code_simp

section \<open>The index store: cancellation and the paired containers\<close>

lemma index_store_start_merge_frame:
  "index_store_start_merge self ixs fs ds = (self', fs', ds') \<Longrightarrow>
     file_container self' = file_container self \<and> folder_container self' = folder_container self \<and>
     include_manager self' = include_manager self \<and> exclude_manager self' = exclude_manager self \<and>
     store_flags self' = store_flags self \<and> running self' = running self"
  by (induction self ixs fs ds rule: index_store_start_merge.induct) (auto split: if_splits)

lemma g_cancellable_is_cancelled_mono:
  "g_cancellable_is_cancelled c k \<Longrightarrow> k \<le> k' \<Longrightarrow> g_cancellable_is_cancelled c k'"
  by (auto simp: g_cancellable_is_cancelled_def split: option.splits)

lemma map_None_replicate: "map (\<lambda>c. None) xs = replicate (length xs) None"
  by (induction xs) auto


lemma paired_slots_counts:
  "paired_slots folders files \<Longrightarrow>
     length (filter (\<lambda>c. c \<noteq> None) folders)
       = length (filter (\<lambda>(folder, file). folder \<noteq> None \<and> file \<noteq> None) (zip folders files)) \<and>
     length (filter (\<lambda>c. c \<noteq> None) files)
       = length (filter (\<lambda>(folder, file). folder \<noteq> None \<and> file \<noteq> None) (zip folders files))"
  unfolding paired_slots_def
  by (induction folders files rule: list_all2_induct) auto

lemma paired_slots_update:
  "paired_slots folders files \<Longrightarrow> (a = None) = (b = None) \<Longrightarrow>
     paired_slots (folders[k := a]) (files[k := b])"
  unfolding paired_slots_def by (rule list_all2_update_cong)

lemma paired_slots_map_left:
  "paired_slots folders files \<Longrightarrow> paired_slots (map (map_option f) folders) files"
  unfolding paired_slots_def by (simp add: list_all2_map1)

lemma paired_slots_map_right:
  "paired_slots folders files \<Longrightarrow> paired_slots folders (map (map_option f) files)"
  unfolding paired_slots_def by (simp add: list_all2_map2)

lemma paired_slots_free:
  "paired_slots folders files \<Longrightarrow> paired_slots (map (\<lambda>c. None) folders) (map (\<lambda>c. None) files)"
  unfolding paired_slots_def by (simp add: list_all2_map1 list_all2_map2 list_all2_conv_all_nth)

lemma index_store_start_paired:
  assumes "paired_slots (folder_container s) (file_container s)"
  shows "paired_slots (folder_container (index_store_start scan order s c))
           (file_container (index_store_start scan order s c))"
proof (cases "running s \<or> g_cancellable_is_cancelled c 1")
  case True
  then show ?thesis using assms by (auto simp: index_store_start_def Let_def)
next
  case False
  define scanned where "scanned = List.map_filter
                (\<lambda>inc. scan inc (exclude_manager s) (store_flags s)
                          (g_cancellable_is_cancelled c 0))
                (include_manager s)"
  obtain s1 fs ds where m: "index_store_start_merge s scanned [] [] = (s1, fs, ds)"
    by (cases "index_store_start_merge s scanned [] []") auto
  note fr = index_store_start_merge_frame [OF m]
  have p1: "paired_slots (folder_container s1) (file_container s1)"
    using assms fr by simp
  show ?thesis
  proof (cases "g_cancellable_is_cancelled c 12")
    case True
    have "paired_slots (map (\<lambda>c. None) (folder_container s1)) (map (\<lambda>c. None) (file_container s1))"
      using p1 by (rule paired_slots_free)
    then have "paired_slots (replicate (length (folder_container s1)) None)
                 (replicate (length (file_container s1)) None)"
      by (simp add: map_None_replicate)
    then show ?thesis
      using False True
      by (simp add: index_store_start_def Let_def scanned_def [symmetric] m
            sorted_entries_free_def map_None_replicate)
  next
    case c12: False
    have nc: "\<not> g_cancellable_is_cancelled c k" if "2 \<le> k" "k \<le> 12" for k
      using c12 g_cancellable_is_cancelled_mono [OF _ that(2)] by blast
    have upd: "paired_slots
            ((folder_container s1)[DATABASE_INDEX_PROPERTY_NAME := Some a1,
               DATABASE_INDEX_PROPERTY_PATH := Some a2, DATABASE_INDEX_PROPERTY_SIZE := Some a3,
               DATABASE_INDEX_PROPERTY_MODIFICATION_TIME := Some a4,
               DATABASE_INDEX_PROPERTY_EXTENSION := Some a5])
            ((file_container s1)[DATABASE_INDEX_PROPERTY_NAME := Some b1,
               DATABASE_INDEX_PROPERTY_PATH := Some b2, DATABASE_INDEX_PROPERTY_SIZE := Some b3,
               DATABASE_INDEX_PROPERTY_MODIFICATION_TIME := Some b4,
               DATABASE_INDEX_PROPERTY_EXTENSION := Some b5])" for a1 a2 a3 a4 a5 b1 b2 b3 b4 b5
      by (intro paired_slots_update p1) simp_all
    show ?thesis
      using False c12
      by (simp add: index_store_start_def Let_def scanned_def [symmetric] m nc
            fsearch_database_entries_container_new_def upd)
  qed
qed

lemma store_reachable_paired:
  "store_reachable scan order s \<Longrightarrow> paired_slots (folder_container s) (file_container s)"
proof (induction rule: store_reachable.induct)
  case (reach_new n include_mgr exclude_mgr flags)
  show ?case
    by (simp add: index_store_new_def paired_slots_def list_all2_conv_all_nth)
next
  case (reach_start s cancellable)
  then show ?case by (simp add: index_store_start_paired)
next
  case (reach_monitoring s)
  then show ?case by (simp add: index_store_start_monitoring_def)
next
  case (reach_add s entries is_dir)
  then show ?case
    by (auto simp: index_store_add_entries_def paired_slots_map_left paired_slots_map_right
        split: option.splits)
next
  case (reach_remove_entry s entry index s')
  then show ?case
    by (auto simp: index_store_remove_entry_def paired_slots_map_left paired_slots_map_right
        split: option.splits if_splits)
next
  case (reach_remove_folders s folders index s')
  then show ?case
    by (auto simp: index_store_remove_folders_def paired_slots_map_left
        split: option.splits if_splits)
next
  case (reach_remove_files s files index s')
  then show ?case
    by (auto simp: index_store_remove_files_def paired_slots_map_right
        split: option.splits if_splits)
qed

text \<open>
  C8: in every state an index store reaches (construction, a completed or cancelled
  start, switching monitoring on, additions and removals of entries), the number of
  sort keys with a folder container, the number of sort keys with a file container
  and \<open>index_store_get_num_fast_sort_indices\<close> are equal.
\<close>

theorem fast_sort_indices_invariant:
  assumes "store_reachable scan order s"
  shows "length (filter (\<lambda>c. c \<noteq> None) (folder_container s))
           = index_store_get_num_fast_sort_indices s \<and>
         length (filter (\<lambda>c. c \<noteq> None) (file_container s))
           = index_store_get_num_fast_sort_indices s"
  using paired_slots_counts [OF store_reachable_paired [OF assms]]
  by (simp add: index_store_get_num_fast_sort_indices_def)

theorem fast_sort_indices_invariant_witness:
  "store_reachable
     (\<lambda>inc ex fl cancelled. if cancelled then None
        else Some \<lparr>ix_id = inc_id inc, ix_flags = fl, ix_files = [], ix_folders = [],
                    ix_monitoring = False\<rparr>)
     (\<lambda>as_is k k2 xs. xs)
     (index_store_start
        (\<lambda>inc ex fl cancelled. if cancelled then None
           else Some \<lparr>ix_id = inc_id inc, ix_flags = fl, ix_files = [], ix_folders = [],
                       ix_monitoring = False\<rparr>)
        (\<lambda>as_is k k2 xs. xs) (index_store_new 6 [] [] 0) None) \<and>
   length (filter (\<lambda>c. c \<noteq> None)
      (folder_container
         (index_store_start
            (\<lambda>inc ex fl cancelled. if cancelled then None
               else Some \<lparr>ix_id = inc_id inc, ix_flags = fl, ix_files = [], ix_folders = [],
                           ix_monitoring = False\<rparr>)
            (\<lambda>as_is k k2 xs. xs) (index_store_new 6 [] [] 0) None))) = 5 \<and>
   length (filter (\<lambda>c. c \<noteq> None)
      (file_container
         (index_store_start
            (\<lambda>inc ex fl cancelled. if cancelled then None
               else Some \<lparr>ix_id = inc_id inc, ix_flags = fl, ix_files = [], ix_folders = [],
                           ix_monitoring = False\<rparr>)
            (\<lambda>as_is k k2 xs. xs) (index_store_new 6 [] [] 0) None))) = 5"
proof -
  define scan0 :: scan_fn where "scan0 = (\<lambda>inc ex fl cancelled. if cancelled then None
        else Some \<lparr>ix_id = inc_id inc, ix_flags = fl, ix_files = [], ix_folders = [],
                    ix_monitoring = False\<rparr>)"
  define order0 :: ordering_fn where "order0 = (\<lambda>as_is k k2 xs. xs)"
  define s where "s = index_store_start scan0 order0 (index_store_new 6 [] [] 0) None"
  have r: "store_reachable scan0 order0 s"
    unfolding s_def by (intro reach_start reach_new)
  have n: "index_store_get_num_fast_sort_indices s = 5"
    unfolding s_def scan0_def order0_def
    by (simp add: index_store_get_num_fast_sort_indices_def index_store_start_def
        index_store_new_def Let_def List.map_filter_def g_cancellable_is_cancelled_def
        fsearch_database_entries_container_new_def
        DATABASE_INDEX_PROPERTY_NAME_def DATABASE_INDEX_PROPERTY_PATH_def
        DATABASE_INDEX_PROPERTY_SIZE_def DATABASE_INDEX_PROPERTY_MODIFICATION_TIME_def
        DATABASE_INDEX_PROPERTY_EXTENSION_def numeral_eq_Suc)
  show ?thesis
    using fast_sort_indices_invariant [OF r] r n
    unfolding s_def scan0_def order0_def by simp
qed



section \<open>Looking up an entry of a view\<close>

lemma word_sub_ge:
  fixes a b c :: u32
  assumes "uint a + uint b \<le> uint c"
  shows "\<not> c < a" and "\<not> c - a < b"
proof -
  have pos: "0 \<le> uint a" "0 \<le> uint b" by simp_all
  have "\<not> uint c < uint a" using assms pos(2) by linarith
  then show "\<not> c < a" by (simp add: word_less_def)
  have "uint (c - a) = (uint c - uint a) mod 2 ^ 32"
    by (simp add: uint_word_ariths)
  also have "\<dots> = uint c - uint a"
  proof (rule mod_pos_pos_trivial)
    show "0 \<le> uint c - uint a" using assms pos(2) by linarith
    have "uint c < 2 ^ 32" using uint_lt2p [of c] by simp
    then show "uint c - uint a < 2 ^ 32" using pos(1) by linarith
  qed
  finally have "\<not> uint (c - a) < uint b" using assms by linarith
  then show "\<not> c - a < b" by (simp add: word_less_def)
qed

lemma get_entry_for_idx_out_of_range:
  assumes "unat (get_num_search_folder_results (Some view))
             + unat (get_num_search_file_results (Some view)) \<le> unat idx"
  shows "get_entry_for_idx view idx = None"
proof (cases "v_folder_container view")
  case None
  then show ?thesis by (simp add: get_entry_for_idx_def)
next
  case (Some folders)
  show ?thesis
  proof (cases "v_file_container view")
    case None
    then show ?thesis by (simp add: get_entry_for_idx_def Some)
  next
    case (Some files)
    define F where "F = get_num_search_folder_results (Some view)"
    define N where "N = get_num_search_file_results (Some view)"
    have le: "unat F + unat N \<le> unat idx" using assms by (simp add: F_def N_def)
    have lei: "uint F + uint N \<le> uint idx"
      using le unfolding uint_nat by linarith
    note asc = word_sub_ge [OF lei]
    define j where "j = F + N - (idx + 1)"
    have ge: "uint F + uint N \<le> uint j"
    proof -
      define x where "x = uint F + uint N - (uint idx + 1)"
      have bnd: "uint idx < 2 ^ 32" using uint_lt2p [of idx] by simp
      have pos: "0 \<le> uint F" "0 \<le> uint N" by simp_all
      have xr: "0 \<le> x + 2 ^ 32" "x + 2 ^ 32 < 2 ^ 32"
        using lei bnd pos unfolding x_def by linarith+
      have "uint j = x mod 2 ^ 32"
        unfolding j_def x_def by (simp add: uint_word_ariths mod_simps)
      also have "\<dots> = (x + 2 ^ 32) mod 2 ^ 32" by simp
      also have "\<dots> = x + 2 ^ 32" using xr by (rule mod_pos_pos_trivial)
      finally have uj: "uint j = x + 2 ^ 32" .
      show ?thesis using bnd unfolding uj x_def by linarith
    qed
    note desc = word_sub_ge [OF ge]
    show ?thesis
      using asc desc
      by (cases "v_sort_type view")
        (simp_all add: get_entry_for_idx_def Some \<open>v_folder_container view = Some folders\<close>
          Let_def get_idx_for_sort_type_def F_def [symmetric] N_def [symmetric] j_def)
  qed
qed

lemma folded_lookup:
  fixes F N w :: u32
  assumes F: "unat F = length fs" and N: "unat N = length xs"
    and k: "unat w < length fs + length xs"
  shows "(if w < F then darray_get_item fs (unat w)
          else if w - F < N then darray_get_item xs (unat (w - F)) else None)
         = Some ((fs @ xs) ! unat w)"
proof (cases "unat w < length fs")
  case True
  then have "w < F" by (simp add: word_less_nat_alt F)
  then show ?thesis using True by (simp add: darray_get_item_def nth_append)
next
  case False
  then have nlt: "\<not> w < F" by (simp add: word_less_nat_alt F)
  then have "F \<le> w" by simp
  then have sub: "unat (w - F) = unat w - length fs" by (simp add: unat_sub F)
  have lt: "unat (w - F) < length xs" using k False unfolding sub by linarith
  then have "w - F < N" by (simp add: word_less_nat_alt N)
  then show ?thesis
    using nlt lt False by (simp add: darray_get_item_def nth_append sub)
qed

lemma descending_index:
  fixes F N idx :: u32
  assumes F: "unat F = LF" and N: "unat N = LN" and le: "LF + LN \<le> 2 ^ 32"
    and i: "unat idx < LF + LN"
  shows "unat (F + N - (idx + 1)) = LF + LN - 1 - unat idx"
proof -
  define x where "x = uint F + uint N - (uint idx + 1)"
  have uF: "uint F = int LF" and uN: "uint N = int LN"
    unfolding F [symmetric] N [symmetric] by (rule uint_nat)+
  have ui: "uint idx = int (unat idx)" by (rule uint_nat)
  have le': "int LF + int LN \<le> 4294967296"
    using le by (simp flip: of_nat_add)
  have i': "int (unat idx) < int LF + int LN"
    using i by linarith
  have xr: "0 \<le> x" "x < 4294967296"
    using le' i' unfolding x_def uF uN ui by linarith+
  have "uint (F + N - (idx + 1)) = x mod 4294967296"
    unfolding x_def by (simp add: uint_word_ariths mod_simps)
  also have "\<dots> = x" using xr by (rule mod_pos_pos_trivial)
  finally have e: "uint (F + N - (idx + 1)) = x" .
  have "int (unat (F + N - (idx + 1))) = uint (F + N - (idx + 1))"
    by (rule uint_nat [symmetric])
  also have "\<dots> = x" by (rule e)
  also have "x = int LF + int LN - (int (unat idx) + 1)"
    unfolding x_def uF uN ui ..
  finally show ?thesis using i by linarith
qed

text \<open>
  C6, with the bounds it needs: for a view whose two containers are both present, with
  \<open>F\<close> folder and \<open>N\<close> file results that each fit a \<^verbatim>\<open>uint32_t\<close> and with \<open>F + N \<le> 2^32\<close>,
  and every \<open>idx < F + N\<close>, \<open>get_entry_for_idx\<close> returns the \<open>idx\<close>-th element of the
  folded sequence (folders, then files) when the direction is ascending and the
  \<open>(F + N - 1 - idx)\<close>-th element when it is descending.
\<close>

theorem get_entry_for_idx_folded:
  assumes folders: "v_folder_container view = Some folders"
    and files: "v_file_container view = Some files"
    and lf: "length (c_entries folders) < 2 ^ 32"
    and ln: "length (c_entries files) < 2 ^ 32"
    and total: "length (c_entries folders) + length (c_entries files) \<le> 2 ^ 32"
    and idx: "unat idx < length (c_entries folders) + length (c_entries files)"
  shows "get_entry_for_idx view idx =
           Some ((c_entries folders @ c_entries files) !
                   (if v_sort_type view = GTK_SORT_DESCENDING
                    then length (c_entries folders) + length (c_entries files) - 1 - unat idx
                    else unat idx))"
proof -
  define F :: u32 where "F = of_nat (length (c_entries folders))"
  define N :: u32 where "N = of_nat (length (c_entries files))"
  have F: "unat F = length (c_entries folders)" using lf by (simp add: F_def unat_of_nat_u32)
  have N: "unat N = length (c_entries files)" using ln by (simp add: N_def unat_of_nat_u32)
  have nf: "get_num_search_folder_results (Some view) = F"
    by (simp add: get_num_search_folder_results_def folders files F_def
        fsearch_database_entries_container_get_num_entries_def)
  have nn: "get_num_search_file_results (Some view) = N"
    by (simp add: get_num_search_file_results_def files N_def
        fsearch_database_entries_container_get_num_entries_def)
  define w where "w = get_idx_for_sort_type idx N F (v_sort_type view)"
  have w: "unat w = (if v_sort_type view = GTK_SORT_DESCENDING
                    then length (c_entries folders) + length (c_entries files) - 1 - unat idx
                    else unat idx)"
    using descending_index [OF F N total idx]
    by (simp add: w_def get_idx_for_sort_type_def)
  have k: "unat w < length (c_entries folders) + length (c_entries files)"
    using idx unfolding w by (auto split: if_splits)
  have "get_entry_for_idx view idx =
          (if w < F then darray_get_item (c_entries folders) (unat w)
           else if w - F < N then darray_get_item (c_entries files) (unat (w - F)) else None)"
    by (simp add: get_entry_for_idx_def folders files nf nn Let_def w_def
        fsearch_database_entries_container_get_entry_def)
  also have "\<dots> = Some ((c_entries folders @ c_entries files) ! unat w)"
    using F N k by (rule folded_lookup)
  finally show ?thesis unfolding w .
qed

text \<open>
  The example view (folder \<open>d\<close>, files \<open>a\<close> and \<open>b\<close>): descending, index 0 is the last
  file; ascending, it is the folder.
\<close>

theorem get_entry_for_idx_folded_witness:
  "get_entry_for_idx example_view 0 = Some example_file_b \<and>
   get_entry_for_idx (example_view\<lparr>v_sort_type := GTK_SORT_ASCENDING\<rparr>) 0 = Some example_folder"
proof -
  let ?folders = "\<lparr>c_entries = [example_folder], c_sort_order = 0,
                    c_secondary_sort_order = None, c_entry_type = DATABASE_ENTRY_TYPE_FOLDER\<rparr>"
  let ?files = "\<lparr>c_entries = [example_file_a, example_file_b], c_sort_order = 0,
                  c_secondary_sort_order = None, c_entry_type = DATABASE_ENTRY_TYPE_FILE\<rparr>"
  have d: "get_entry_for_idx example_view 0 = Some example_file_b"
    using get_entry_for_idx_folded [of example_view ?folders ?files 0]
    by (simp add: example_view_def)
  have a: "get_entry_for_idx (example_view\<lparr>v_sort_type := GTK_SORT_ASCENDING\<rparr>) 0
             = Some example_folder"
    using get_entry_for_idx_folded
      [of "example_view\<lparr>v_sort_type := GTK_SORT_ASCENDING\<rparr>" ?folders ?files 0]
    by (simp add: example_view_def)
  show ?thesis using d a by simp
qed

text \<open>
  C6 as stated, for every view, fails: \<open>get_idx_for_sort_type\<close> computes
  \<open>num_folders + num_files - (idx + 1)\<close> in \<^verbatim>\<open>uint32_t\<close>.  With \<open>2^31\<close> folders and
  \<open>2^31 + 1\<close> files the sum wraps to 1, so descending index 0 is mapped to position 0, the
  first folder, where the folded sequence has a file at position \<open>F + N - 1\<close>.
\<close>

theorem get_entry_descending_wraps:
  "v_sort_type wide_view = GTK_SORT_DESCENDING \<and>
   unat (get_num_search_folder_results (Some wide_view)) = 2 ^ 31 \<and>
   unat (get_num_search_file_results (Some wide_view)) = 2 ^ 31 + 1 \<and>
   get_entry_for_idx wide_view 0 = Some example_folder \<and>
   (replicate (2 ^ 31) example_folder @ replicate (2 ^ 31 + 1) example_file_a)
     ! (2 ^ 31 + (2 ^ 31 + 1) - 1 - unat (0 :: u32)) = example_file_a \<and>
   example_folder \<noteq> example_file_a"
proof -
  have F: "get_num_search_folder_results (Some wide_view) = 2147483648"
    by (simp add: get_num_search_folder_results_def wide_view_def
        fsearch_database_entries_container_get_num_entries_def)
  have N: "get_num_search_file_results (Some wide_view) = 2147483649"
    by (simp add: get_num_search_file_results_def wide_view_def
        fsearch_database_entries_container_get_num_entries_def)
  have g: "get_entry_for_idx wide_view 0 = Some example_folder"
    unfolding get_entry_for_idx_def F N
    by (simp add: wide_view_def get_idx_for_sort_type_def Let_def
        fsearch_database_entries_container_get_entry_def darray_get_item_def)
  have n: "(replicate (2 ^ 31) example_folder @ replicate (2 ^ 31 + 1) example_file_a)
             ! (2 ^ 31 + (2 ^ 31 + 1) - 1 - unat (0 :: u32)) = example_file_a"
    by (simp add: nth_append)
  have ne: "example_folder \<noteq> example_file_a"
    by (simp add: example_folder_def example_file_a_def)
  show ?thesis using F N g n ne by (simp add: wide_view_def)
qed

text \<open>
  C7: for a registered view with \<open>F\<close> folder and \<open>N\<close> file results, either direction, and
  every index \<open>idx \<ge> F + N\<close>, \<open>get_entry_for_idx\<close> returns no entry and
  \<open>get_entry_info_non_blocking\<close> reports \<^verbatim>\<open>FSEARCH_RESULT_DB_ENTRY_NOT_FOUND\<close> without an
  info object.
\<close>

theorem get_entry_beyond_results:
  assumes "get_search_view self (ii_view_id work) = Some view"
    and "unat (get_num_search_folder_results (Some view))
           + unat (get_num_search_file_results (Some view)) \<le> unat (ii_index work)"
  shows "get_entry_for_idx view (ii_index work) = None \<and>
         get_entry_info_non_blocking self work = (FSEARCH_RESULT_DB_ENTRY_NOT_FOUND, None)"
  using assms(1) get_entry_for_idx_out_of_range [OF assms(2)]
  by (simp add: get_entry_info_non_blocking_def)

lemma get_entry_for_idx_selection [simp]:
  "get_entry_for_idx (v\<lparr>v_file_selection := fs\<rparr>) i = get_entry_for_idx v i"
  "get_entry_for_idx (v\<lparr>v_folder_selection := ds\<rparr>) i = get_entry_for_idx v i"
  by (simp_all add: get_entry_for_idx_def get_num_search_folder_results_def
      get_num_search_file_results_def cong: option.case_cong)

lemma example_view_lookup:
  "get_entry_for_idx example_view 0 = Some example_file_b"
  "get_entry_for_idx example_view 1 = Some example_file_a"
  "get_entry_for_idx example_view 2 = Some example_folder"
  "get_entry_for_idx example_view 3 = None"
  by (simp_all add: get_entry_for_idx_def example_view_def get_num_search_folder_results_def
      get_num_search_file_results_def fsearch_database_entries_container_get_num_entries_def
      fsearch_database_entries_container_get_entry_def get_idx_for_sort_type_def
      darray_get_item_def Let_def)

text \<open>
  The example view has three results; index 3 is the first one beyond them.
\<close>

theorem get_entry_beyond_results_witness:
  "get_entry_for_idx example_view 3 = None \<and>
   get_entry_info_non_blocking example_database
     \<lparr>ii_view_id = 1, ii_index = 3, ii_flags = 0\<rparr> = (FSEARCH_RESULT_DB_ENTRY_NOT_FOUND, None)"
  using get_entry_beyond_results
    [of example_database "\<lparr>ii_view_id = 1, ii_index = 3, ii_flags = 0\<rparr>" example_view]
  by (simp add: example_database_def get_search_view_def get_num_search_folder_results_def
      get_num_search_file_results_def fsearch_database_entries_container_get_num_entries_def
      example_view_def)

section \<open>Selection ranges and the selection handler\<close>

text \<open>
  A range loop whose upper end is not \<^verbatim>\<open>INT32_MAX\<close> returns, having applied its body
  to every index from its start to its end in ascending order: the counter reaches
  \<open>end_idx + 1\<close> without overflow.
\<close>

lemma sint_succ:
  fixes i :: u32
  assumes "sint i < 2147483647"
  shows "sint (i + 1) = sint i + 1"
proof -
  have lo: "- (2 ^ 31) \<le> sint i" using sint_ge [of i] by simp
  have "sint (i + 1) = signed_take_bit 31 (sint i + 1)"
    by (simp add: sint_word_ariths)
  also have "\<dots> = sint i + 1"
    using lo assms by (intro signed_take_bit_int_eq_self) simp_all
  finally show ?thesis .
qed

lemma select_range_loop_fold:
  fixes e :: u32
  assumes e: "sint e < 2147483647"
  shows "select_range_loop v i e =
           Some (foldl select_range_body v (map word_of_int [sint i..sint e]))"
proof (induction "nat (sint e + 1 - sint i)" arbitrary: v i rule: less_induct)
  case less
  show ?case
  proof (cases "word_sle i e")
    case False
    then have "sint e < sint i" by (simp add: word_sle_eq)
    then have "[sint i..sint e] = []" by simp
    then show ?thesis using False by (subst select_range_loop.simps) simp
  next
    case True
    then have le: "sint i \<le> sint e" by (simp add: word_sle_eq)
    then have "sint i < 2147483647" using e by linarith
    then have s: "sint (i + 1) = sint i + 1" by (rule sint_succ)
    have "nat (sint e + 1 - sint (i + 1)) < nat (sint e + 1 - sint i)"
      using le unfolding s by linarith
    from less [OF this]
    have ih: "select_range_loop (select_range_body v i) (i + 1) e =
           Some (foldl select_range_body (select_range_body v i)
                  (map word_of_int [sint i + 1..sint e]))"
      unfolding s .
    have u: "[sint i..sint e] = sint i # [sint i + 1..sint e]"
      using le by (rule upto_rec1)
    show ?thesis
      using True ih by (subst select_range_loop.simps) (simp add: u)
  qed
qed

lemma toggle_range_loop_fold:
  fixes e :: u32
  assumes e: "sint e < 2147483647"
  shows "toggle_range_loop v i e =
           Some (foldl toggle_range_body v (map word_of_int [sint i..sint e]))"
proof (induction "nat (sint e + 1 - sint i)" arbitrary: v i rule: less_induct)
  case less
  show ?case
  proof (cases "word_sle i e")
    case False
    then have "sint e < sint i" by (simp add: word_sle_eq)
    then have "[sint i..sint e] = []" by simp
    then show ?thesis using False by (subst toggle_range_loop.simps) simp
  next
    case True
    then have le: "sint i \<le> sint e" by (simp add: word_sle_eq)
    then have "sint i < 2147483647" using e by linarith
    then have s: "sint (i + 1) = sint i + 1" by (rule sint_succ)
    have "nat (sint e + 1 - sint (i + 1)) < nat (sint e + 1 - sint i)"
      using le unfolding s by linarith
    from less [OF this]
    have ih: "toggle_range_loop (toggle_range_body v i) (i + 1) e =
           Some (foldl toggle_range_body (toggle_range_body v i)
                  (map word_of_int [sint i + 1..sint e]))"
      unfolding s .
    have u: "[sint i..sint e] = sint i # [sint i + 1..sint e]"
      using le by (rule upto_rec1)
    show ?thesis
      using True ih by (subst toggle_range_loop.simps) (simp add: u)
  qed
qed

lemma select_range_fold:
  assumes "sint a < 2147483647" and "sint b < 2147483647"
  shows "select_range view a b = Some (foldl select_range_body view (range_indices a b))"
proof (cases "word_sless b a")
  case True
  then have "sint b < sint a" by (simp add: word_sless_alt)
  then have "range_indices a b = map word_of_int [sint b..sint a]"
    by (simp add: range_indices_def min_def max_def)
  then show ?thesis
    using True select_range_loop_fold [OF assms(1), of view b]
    by (simp add: select_range_def)
next
  case False
  then have "sint a \<le> sint b" by (simp add: word_sless_alt)
  then have "range_indices a b = map word_of_int [sint a..sint b]"
    by (simp add: range_indices_def min_def max_def)
  then show ?thesis
    using False select_range_loop_fold [OF assms(2), of view a]
    by (simp add: select_range_def)
qed

lemma toggle_range_fold:
  assumes "sint a < 2147483647" and "sint b < 2147483647"
  shows "toggle_range view a b = Some (foldl toggle_range_body view (range_indices a b))"
proof (cases "word_sless b a")
  case True
  then have "sint b < sint a" by (simp add: word_sless_alt)
  then have "range_indices a b = map word_of_int [sint b..sint a]"
    by (simp add: range_indices_def min_def max_def)
  then show ?thesis
    using True toggle_range_loop_fold [OF assms(1), of view b]
    by (simp add: toggle_range_def)
next
  case False
  then have "sint a \<le> sint b" by (simp add: word_sless_alt)
  then have "range_indices a b = map word_of_int [sint a..sint b]"
    by (simp add: range_indices_def min_def max_def)
  then show ?thesis
    using False toggle_range_loop_fold [OF assms(2), of view a]
    by (simp add: toggle_range_def)
qed

lemma range_indices_commute: "range_indices a b = range_indices b a"
  by (simp add: range_indices_def min.commute max.commute)

text \<open>
  Past its early return, \<open>modify_selection\<close> hands a range item to \<open>select_range\<close> or
  \<open>toggle_range\<close>, stores the view and emits \<open>selection-changed\<close>.
\<close>

lemma modify_selection_range:
  assumes "get_search_view self view_id = Some view"
    and "get_entry_for_idx view a \<noteq> None"
  shows "modify_selection self
           \<lparr>ms_view_id = view_id, ms_type = FSEARCH_SELECTION_TYPE_SELECT_RANGE,
            ms_start_idx = a, ms_end_idx = b\<rparr> =
         map_option
           (\<lambda>view'. emit_signal
              (self\<lparr>search_results := store_view (search_results self) view_id view'\<rparr>)
              EVENT_SELECTION_CHANGED [Arg_View_Id view_id, Arg_Search_Info (view_search_info view')])
           (select_range view a b)"
    and "modify_selection self
           \<lparr>ms_view_id = view_id, ms_type = FSEARCH_SELECTION_TYPE_TOGGLE_RANGE,
            ms_start_idx = a, ms_end_idx = b\<rparr> =
         map_option
           (\<lambda>view'. emit_signal
              (self\<lparr>search_results := store_view (search_results self) view_id view'\<rparr>)
              EVENT_SELECTION_CHANGED [Arg_View_Id view_id, Arg_Search_Info (view_search_info view')])
           (toggle_range view a b)"
  using assms
  by (auto simp: modify_selection_def apply_selection_def Let_def split: option.splits)

text \<open>
  With \<^verbatim>\<open>INT32_MAX\<close> as the upper end the condition \<open>i \<le> end_idx\<close> never fails, and the
  loops have no result.
\<close>

lemma select_range_loop_int32_max:
  assumes "select_range_loop v i e = Some y"
  shows "e \<noteq> 2147483647"
proof (rule select_range_loop.raw_induct
    [where P = "\<lambda>view i end_idx y. end_idx \<noteq> 2147483647", OF _ assms])
  fix f :: "search_view \<Rightarrow> u32 \<Rightarrow> u32 \<Rightarrow> search_view option"
    and view i end_idx viewa
  assume ih: "\<And>v i e y. f v i e = Some y \<Longrightarrow> e \<noteq> 2147483647"
    and eq: "(if word_sle i end_idx then f (select_range_body view i) (i + 1) end_idx
              else Some view) = Some viewa"
  show "end_idx \<noteq> 2147483647"
  proof (cases "word_sle i end_idx")
    case True
    then show ?thesis using ih eq by simp
  next
    case False
    then have "sint end_idx < sint i" by (simp add: word_sle_eq)
    moreover have "sint i < 2147483648" using sint_lt [of i] by simp
    ultimately have "sint end_idx \<noteq> 2147483647" by linarith
    then show ?thesis by auto
  qed
qed

lemma toggle_range_loop_int32_max:
  assumes "toggle_range_loop v i e = Some y"
  shows "e \<noteq> 2147483647"
proof (rule toggle_range_loop.raw_induct
    [where P = "\<lambda>view i end_idx y. end_idx \<noteq> 2147483647", OF _ assms])
  fix f :: "search_view \<Rightarrow> u32 \<Rightarrow> u32 \<Rightarrow> search_view option"
    and view i end_idx viewa
  assume ih: "\<And>v i e y. f v i e = Some y \<Longrightarrow> e \<noteq> 2147483647"
    and eq: "(if word_sle i end_idx then f (toggle_range_body view i) (i + 1) end_idx
              else Some view) = Some viewa"
  show "end_idx \<noteq> 2147483647"
  proof (cases "word_sle i end_idx")
    case True
    then show ?thesis using ih eq by simp
  next
    case False
    then have "sint end_idx < sint i" by (simp add: word_sle_eq)
    moreover have "sint i < 2147483648" using sint_lt [of i] by simp
    ultimately have "sint end_idx \<noteq> 2147483647" by linarith
    then show ?thesis by auto
  qed
qed

lemma range_int32_max_no_result:
  "select_range view a 2147483647 = None" "select_range view 2147483647 a = None"
  "toggle_range view a 2147483647 = None" "toggle_range view 2147483647 a = None"
proof -
  have s: "select_range_loop v i 2147483647 = None" for v i
    using select_range_loop_int32_max [of v i 2147483647] by (cases "select_range_loop v i 2147483647") auto
  have t: "toggle_range_loop v i 2147483647 = None" for v i
    using toggle_range_loop_int32_max [of v i 2147483647] by (cases "toggle_range_loop v i 2147483647") auto
  have m: "\<not> word_sless (2147483647 :: u32) a"
    using sint_lt [of a] by (simp add: word_sless_alt)
  have e: "word_sless a (2147483647 :: u32) \<or> a = 2147483647"
    using m signed.neqE by blast
  show "select_range view a 2147483647 = None" by (simp add: select_range_def m s)
  show "toggle_range view a 2147483647 = None" by (simp add: toggle_range_def m t)
  show "select_range view 2147483647 a = None" using e by (auto simp: select_range_def m s)
  show "toggle_range view 2147483647 a = None" using e by (auto simp: toggle_range_def m t)
qed

text \<open>
  C9, with the bounds it needs: for every view and every pair of indices \<open>a\<close> and \<open>b\<close>,
  neither of them \<^verbatim>\<open>INT32_MAX\<close>, \<open>select_range\<close> called with \<open>(a, b)\<close> and with \<open>(b, a)\<close>
  returns the same view: the one in which the entry at every index from the smaller
  endpoint to the larger has been selected, in ascending order; \<open>toggle_range\<close> likewise
  returns the view in which each of them has been toggled.  Through \<open>modify_selection\<close>
  on a registered view, the range items \<open>(a, b)\<close> and \<open>(b, a)\<close> have the same result, and
  have one, when the view has an entry at \<open>a\<close> and an entry at \<open>b\<close>.
\<close>

theorem range_endpoints_either_order:
  assumes "sint a < 2147483647" and "sint b < 2147483647"
  shows "select_range view a b = Some (foldl select_range_body view (range_indices a b)) \<and>
         select_range view b a = Some (foldl select_range_body view (range_indices a b)) \<and>
         toggle_range view a b = Some (foldl toggle_range_body view (range_indices a b)) \<and>
         toggle_range view b a = Some (foldl toggle_range_body view (range_indices a b)) \<and>
         (get_search_view self view_id = Some view \<and> get_entry_for_idx view a \<noteq> None \<and>
          get_entry_for_idx view b \<noteq> None \<longrightarrow>
            modify_selection self
              \<lparr>ms_view_id = view_id, ms_type = FSEARCH_SELECTION_TYPE_SELECT_RANGE,
               ms_start_idx = a, ms_end_idx = b\<rparr> =
            modify_selection self
              \<lparr>ms_view_id = view_id, ms_type = FSEARCH_SELECTION_TYPE_SELECT_RANGE,
               ms_start_idx = b, ms_end_idx = a\<rparr> \<and>
            modify_selection self
              \<lparr>ms_view_id = view_id, ms_type = FSEARCH_SELECTION_TYPE_SELECT_RANGE,
               ms_start_idx = a, ms_end_idx = b\<rparr> \<noteq> None \<and>
            modify_selection self
              \<lparr>ms_view_id = view_id, ms_type = FSEARCH_SELECTION_TYPE_TOGGLE_RANGE,
               ms_start_idx = a, ms_end_idx = b\<rparr> =
            modify_selection self
              \<lparr>ms_view_id = view_id, ms_type = FSEARCH_SELECTION_TYPE_TOGGLE_RANGE,
               ms_start_idx = b, ms_end_idx = a\<rparr> \<and>
            modify_selection self
              \<lparr>ms_view_id = view_id, ms_type = FSEARCH_SELECTION_TYPE_TOGGLE_RANGE,
               ms_start_idx = a, ms_end_idx = b\<rparr> \<noteq> None)"
proof -
  note sab = select_range_fold [OF assms, of view]
  note sba = select_range_fold [OF assms(2,1), of view, unfolded range_indices_commute [of b a]]
  note tab = toggle_range_fold [OF assms, of view]
  note tba = toggle_range_fold [OF assms(2,1), of view, unfolded range_indices_commute [of b a]]
  show ?thesis
    using sab sba tab tba
    by (simp add: modify_selection_range)
qed

text \<open>
  On the example view, in which \<open>a\<close> is selected, the range between 0 and 2 given in
  either order selects all three entries, and toggling it leaves \<open>b\<close> and the folder
  selected; the view has entries at 0 and at 2, so the handler agrees on the two orders.
\<close>

theorem range_endpoints_either_order_witness:
  "select_range example_view 2 0 =
     Some (example_view\<lparr>v_file_selection := {example_file_a, example_file_b},
                         v_folder_selection := {example_folder}\<rparr>) \<and>
   select_range example_view 0 2 =
     Some (example_view\<lparr>v_file_selection := {example_file_a, example_file_b},
                         v_folder_selection := {example_folder}\<rparr>) \<and>
   toggle_range example_view 2 0 =
     Some (example_view\<lparr>v_file_selection := {example_file_b},
                         v_folder_selection := {example_folder}\<rparr>) \<and>
   toggle_range example_view 0 2 =
     Some (example_view\<lparr>v_file_selection := {example_file_b},
                         v_folder_selection := {example_folder}\<rparr>) \<and>
   modify_selection example_database
     \<lparr>ms_view_id = 1, ms_type = FSEARCH_SELECTION_TYPE_SELECT_RANGE, ms_start_idx = 2,
      ms_end_idx = 0\<rparr> =
   modify_selection example_database
     \<lparr>ms_view_id = 1, ms_type = FSEARCH_SELECTION_TYPE_SELECT_RANGE, ms_start_idx = 0,
      ms_end_idx = 2\<rparr> \<and>
   modify_selection example_database
     \<lparr>ms_view_id = 1, ms_type = FSEARCH_SELECTION_TYPE_SELECT_RANGE, ms_start_idx = 2,
      ms_end_idx = 0\<rparr> \<noteq> None \<and>
   modify_selection example_database
     \<lparr>ms_view_id = 1, ms_type = FSEARCH_SELECTION_TYPE_TOGGLE_RANGE, ms_start_idx = 2,
      ms_end_idx = 0\<rparr> =
   modify_selection example_database
     \<lparr>ms_view_id = 1, ms_type = FSEARCH_SELECTION_TYPE_TOGGLE_RANGE, ms_start_idx = 0,
      ms_end_idx = 2\<rparr> \<and>
   modify_selection example_database
     \<lparr>ms_view_id = 1, ms_type = FSEARCH_SELECTION_TYPE_TOGGLE_RANGE, ms_start_idx = 2,
      ms_end_idx = 0\<rparr> \<noteq> None"
proof -
  have ne: "example_file_b \<noteq> example_file_a"
    by (simp add: example_file_a_def example_file_b_def)
  have ty: "e_type example_file_a = DATABASE_ENTRY_TYPE_FILE"
    "e_type example_file_b = DATABASE_ENTRY_TYPE_FILE"
    "e_type example_folder = DATABASE_ENTRY_TYPE_FOLDER"
    by (simp_all add: example_file_a_def example_file_b_def example_folder_def)
  have sel: "v_file_selection example_view = {example_file_a}"
    "v_folder_selection example_view = {}"
    by (simp_all add: example_view_def)
  have ri: "range_indices 2 0 = [0, 1, 2]" by code_simp
  have set1: "{example_file_a, example_file_b, example_file_a}
               = {example_file_a, example_file_b}" by auto
  have set2: "{example_file_b, example_file_a} - {example_file_a} = {example_file_b}"
    using ne by auto
  have s: "foldl select_range_body example_view (range_indices 2 0) =
     example_view\<lparr>v_file_selection := {example_file_a, example_file_b},
                   v_folder_selection := {example_folder}\<rparr>"
    using ne
    by (auto simp: ri set1 select_range_body_def example_view_lookup ty sel
        fsearch_selection_select_def)
  have t: "foldl toggle_range_body example_view (range_indices 2 0) =
     example_view\<lparr>v_file_selection := {example_file_b},
                   v_folder_selection := {example_folder}\<rparr>"
    using ne
    by (auto simp: ri set2 toggle_range_body_def example_view_lookup ty sel
        fsearch_selection_select_toggle_def)
  have b: "sint (2 :: u32) < 2147483647" "sint (0 :: u32) < 2147483647" by simp_all
  have v: "get_search_view example_database 1 = Some example_view"
    by (simp add: example_database_def get_search_view_def)
  have h: "get_search_view example_database 1 = Some example_view \<and>
           get_entry_for_idx example_view 2 \<noteq> None \<and>
           get_entry_for_idx example_view 0 \<noteq> None"
    by (simp add: v example_view_lookup)
  from range_endpoints_either_order
         [OF b, of example_view example_database 1, unfolded s t] h
  show ?thesis by blast
qed

text \<open>
  C9 as stated, for every pair of indices, fails.  The handler returns early when the
  start index names no entry: with three results, the range items from 5 to 2 change
  nothing, the ones from 2 to 5 do.  And a range with the endpoint \<^verbatim>\<open>INT32_MAX\<close> has
  no result in either order.
\<close>

theorem range_order_counterexample:
  "modify_selection example_database
     \<lparr>ms_view_id = 1, ms_type = FSEARCH_SELECTION_TYPE_SELECT_RANGE, ms_start_idx = 5,
      ms_end_idx = 2\<rparr> = Some example_database \<and>
   modify_selection example_database
     \<lparr>ms_view_id = 1, ms_type = FSEARCH_SELECTION_TYPE_SELECT_RANGE, ms_start_idx = 2,
      ms_end_idx = 5\<rparr> \<noteq> Some example_database \<and>
   modify_selection example_database
     \<lparr>ms_view_id = 1, ms_type = FSEARCH_SELECTION_TYPE_TOGGLE_RANGE, ms_start_idx = 5,
      ms_end_idx = 2\<rparr> = Some example_database \<and>
   modify_selection example_database
     \<lparr>ms_view_id = 1, ms_type = FSEARCH_SELECTION_TYPE_TOGGLE_RANGE, ms_start_idx = 2,
      ms_end_idx = 5\<rparr> \<noteq> Some example_database \<and>
   select_range example_view 0 2147483647 = None \<and>
   select_range example_view 2147483647 0 = None \<and>
   toggle_range example_view 0 2147483647 = None \<and>
   toggle_range example_view 2147483647 0 = None"
proof -
  have h: "modify_selection example_database
     \<lparr>ms_view_id = 1, ms_type = FSEARCH_SELECTION_TYPE_SELECT_RANGE, ms_start_idx = 5,
      ms_end_idx = 2\<rparr> = Some example_database \<and>
   modify_selection example_database
     \<lparr>ms_view_id = 1, ms_type = FSEARCH_SELECTION_TYPE_SELECT_RANGE, ms_start_idx = 2,
      ms_end_idx = 5\<rparr> \<noteq> Some example_database \<and>
   modify_selection example_database
     \<lparr>ms_view_id = 1, ms_type = FSEARCH_SELECTION_TYPE_TOGGLE_RANGE, ms_start_idx = 5,
      ms_end_idx = 2\<rparr> = Some example_database \<and>
   modify_selection example_database
     \<lparr>ms_view_id = 1, ms_type = FSEARCH_SELECTION_TYPE_TOGGLE_RANGE, ms_start_idx = 2,
      ms_end_idx = 5\<rparr> \<noteq> Some example_database"
    by code_simp
  show ?thesis
    using h range_int32_max_no_result [of example_view 0] by blast
qed

text \<open>
  C10: for every \<open>modify_selection\<close> work item addressed to a registered view, of any
  selection kind, when \<open>get_entry_for_idx\<close> finds no entry at the item's start index the
  handler returns with the database as it was: no selection is changed and nothing is
  emitted.
\<close>

theorem modify_selection_without_entry:
  assumes "get_search_view self (ms_view_id work) = Some view"
    and "get_entry_for_idx view (ms_start_idx work) = None"
  shows "modify_selection self work = Some self"
  using assms by (simp add: modify_selection_def)

text \<open>
  A \<open>Clear\<close> item with start index 3 on the example view leaves the selection of \<open>a\<close> in
  place; with start index 0 the same item clears it and emits \<open>selection-changed\<close>.
\<close>

theorem modify_selection_without_entry_witness:
  "get_entry_for_idx example_view 3 = None \<and>
   v_file_selection example_view \<noteq> {} \<and>
   modify_selection example_database
     \<lparr>ms_view_id = 1, ms_type = FSEARCH_SELECTION_TYPE_CLEAR, ms_start_idx = 3, ms_end_idx = 0\<rparr>
     = Some example_database"
  using modify_selection_without_entry
    [of example_database
      "\<lparr>ms_view_id = 1, ms_type = FSEARCH_SELECTION_TYPE_CLEAR, ms_start_idx = 3,
         ms_end_idx = 0\<rparr>" example_view]
  by (simp add: example_view_lookup example_database_def get_search_view_def)
    (simp add: example_view_def)

lemma modify_selection_clear_with_entry:
  "modify_selection example_database
     \<lparr>ms_view_id = 1, ms_type = FSEARCH_SELECTION_TYPE_CLEAR, ms_start_idx = 0, ms_end_idx = 0\<rparr>
     = Some (example_database
         \<lparr>search_results :=
            [(1, example_view\<lparr>v_file_selection := {}, v_folder_selection := {}\<rparr>)],
          emitted :=
            [(EVENT_SELECTION_CHANGED,
              [Arg_View_Id 1,
               Arg_Search_Info
                 \<lparr>si_query = ''*'', si_num_files = 2, si_num_folders = 1,
                  si_num_files_selected = 0, si_num_folders_selected = 0,
                  si_sort_order = 0, si_sort_type = GTK_SORT_DESCENDING\<rparr>])]\<rparr>)"
  by (simp add: modify_selection_def example_database_def get_search_view_def
      example_view_lookup apply_selection_def Let_def fsearch_selection_unselect_all_def
      store_view_def emit_signal_def view_search_info_def get_num_search_folder_results_def
      get_num_search_file_results_def fsearch_database_entries_container_get_num_entries_def
      fsearch_selection_get_num_selected_def)
    (simp add: example_view_def)

section \<open>The scan and load handlers\<close>

lemma index_store_start_managers:
  "include_manager (index_store_start scan order s c) = include_manager s \<and>
   exclude_manager (index_store_start scan order s c) = exclude_manager s"
proof -
  obtain s1 fs ds where m:
    "index_store_start_merge s
       (List.map_filter
          (\<lambda>inc. scan inc (exclude_manager s) (store_flags s) (g_cancellable_is_cancelled c 0))
          (include_manager s)) [] [] = (s1, fs, ds)"
    by (cases "index_store_start_merge s
       (List.map_filter
          (\<lambda>inc. scan inc (exclude_manager s) (store_flags s) (g_cancellable_is_cancelled c 0))
          (include_manager s)) [] []") auto
  note fr = index_store_start_merge_frame [OF m]
  show ?thesis
    by (simp add: index_store_start_def Let_def m fr sorted_entries_free_def)
qed

text \<open>
  C4, what the code does: \<open>scan_database\<close> returns without any effect as soon as a store
  exists and the item's include and exclude managers equal the store's; the item's flags
  are not compared.
\<close>

theorem scan_database_same_managers:
  assumes "db_store self = Some s"
    and "include_manager s = sw_include_manager work"
    and "exclude_manager s = sw_exclude_manager work"
  shows "scan_database scan order n self work = self"
  using assms
  by (simp add: scan_database_def get_include_manager_def get_exclude_manager_def
      fsearch_database_include_manager_equal_def fsearch_database_exclude_manager_equal_def)

text \<open>
  A scan item that differs from the current configuration in its flags only (1 against
  0) changes nothing and emits nothing.
\<close>

theorem scan_database_same_managers_witness:
  "sw_flags \<lparr>sw_include_manager = [example_include], sw_exclude_manager = [], sw_flags = 1\<rparr>
     \<noteq> db_flags scanned_database \<and>
   sw_flags \<lparr>sw_include_manager = [example_include], sw_exclude_manager = [], sw_flags = 1\<rparr>
     \<noteq> store_flags (index_store_new 5 [example_include] [] 0) \<and>
   scan_database (\<lambda>inc ex fl cancelled. None) (\<lambda>as_is k k2 xs. xs) 5 scanned_database
     \<lparr>sw_include_manager = [example_include], sw_exclude_manager = [], sw_flags = 1\<rparr>
     = scanned_database"
  using scan_database_same_managers
    [of scanned_database "index_store_new 5 [example_include] [] 0"
      "\<lparr>sw_include_manager = [example_include], sw_exclude_manager = [], sw_flags = 1\<rparr>"
      "\<lambda>inc ex fl cancelled. None" "\<lambda>as_is k k2 xs. xs" 5]
  by (simp add: scanned_database_def index_store_new_def)

text \<open>
  The other parts of C4 hold of the code: when there is no store or a manager differs,
  the new store is swapped in with the item's flags, the views are cleared and exactly
  the pair \<open>scan-started\<close>, \<open>scan-finished\<close> is emitted; and a scan repeated with the same
  item does nothing the second time.
\<close>

lemma scan_database_rebuilds:
  assumes "db_store self = None
           \<or> get_include_manager self \<noteq> Some (sw_include_manager work)
           \<or> get_exclude_manager self \<noteq> Some (sw_exclude_manager work)"
  shows "\<exists>info. emitted (scan_database scan order n self work) =
           emitted self @ [(EVENT_SCAN_STARTED, []), (EVENT_SCAN_FINISHED, [Arg_Database_Info info])]"
    and "search_results (scan_database scan order n self work) = []"
    and "db_flags (scan_database scan order n self work) = sw_flags work"
    and "db_store (scan_database scan order n self work) =
           Some (index_store_start_monitoring
                   (index_store_start scan order
                      (index_store_new n (sw_include_manager work) (sw_exclude_manager work)
                         (sw_flags work)) None))"
  using assms
  by (auto simp: scan_database_def Let_def emit_signal_def emit_signal0_def
      fsearch_database_include_manager_equal_def fsearch_database_exclude_manager_equal_def)

lemma scan_database_twice:
  "scan_database scan order n (scan_database scan order n self work) work
     = scan_database scan order n self work"
proof (cases "db_store self = None
           \<or> get_include_manager self \<noteq> Some (sw_include_manager work)
           \<or> get_exclude_manager self \<noteq> Some (sw_exclude_manager work)")
  case True
  let ?s = "index_store_start_monitoring
              (index_store_start scan order
                 (index_store_new n (sw_include_manager work) (sw_exclude_manager work)
                    (sw_flags work)) None)"
  have st: "db_store (scan_database scan order n self work) = Some ?s"
    using scan_database_rebuilds(4) [OF True] .
  have im: "include_manager ?s = sw_include_manager work"
    by (simp add: index_store_start_monitoring_def index_store_start_managers
        index_store_new_def)
  have em: "exclude_manager ?s = sw_exclude_manager work"
    by (simp add: index_store_start_monitoring_def index_store_start_managers
        index_store_new_def)
  show ?thesis
    by (simp add: scan_database_def [of scan order n "scan_database scan order n self work"]
        st im em get_include_manager_def get_exclude_manager_def
        fsearch_database_include_manager_equal_def fsearch_database_exclude_manager_equal_def)
next
  case False
  then have "scan_database scan order n self work = self"
    by (auto simp: scan_database_def
        fsearch_database_include_manager_equal_def fsearch_database_exclude_manager_equal_def)
  then show ?thesis by simp
qed

text \<open>
  The example snapshot is decoded by \<open>db_file_load\<close> (the masks 4 and 8 stand in for the
  two flag bits, and there are 5 sort keys).
\<close>

lemma example_snapshot_loads:
  "db_file_load \<lparr>FLAG_SIZE = 4, FLAG_MODIFICATION_TIME = 8\<rparr> 5
     \<lparr>e_type = DATABASE_ENTRY_TYPE_NONE, e_name = [], e_parent = None, e_size = 0,
        e_mtime = 0, e_idx = 0, e_db_index = 0\<rparr> (Some example_snapshot)
     = Loaded ([Some [example_folder], None, None, None, None],
               [Some [example_file_a, example_file_b], None, None, None, None])"
  by code_simp

text \<open>
  C1, what the code does: \<open>load_database_from_file\<close> never changes the store or the
  flags of the database, whatever the snapshot file holds; for a database file with a
  local path it emits \<open>load-started\<close> and then \<open>load-finished\<close>, the latter with the
  database info of the unchanged database.
\<close>

theorem load_database_from_file_keeps_store:
  "db_store (load_database_from_file self) = db_store self \<and>
   db_flags (load_database_from_file self) = db_flags self \<and>
   (db_file self = Some (Some file_path) \<longrightarrow>
      emitted (load_database_from_file self) =
        emitted self @ [(EVENT_LOAD_STARTED, []),
                        (EVENT_LOAD_FINISHED, [Arg_Database_Info (get_database_info self)])])"
  by (auto simp: load_database_from_file_def Let_def emit_signal_def emit_signal0_def
      get_database_info_def get_include_manager_def get_exclude_manager_def
      get_num_database_files_def get_num_database_folders_def split: option.splits)

text \<open>
  The example database has no store and a snapshot file; after the handler it still has
  no store, and \<open>load-finished\<close> carries no managers and zero counts.
\<close>

theorem load_database_from_file_keeps_store_witness:
  "db_store (load_database_from_file example_database) = None \<and>
   emitted (load_database_from_file example_database) =
     [(EVENT_LOAD_STARTED, []),
      (EVENT_LOAD_FINISHED,
       [Arg_Database_Info
          \<lparr>di_include_manager = None, di_exclude_manager = None, di_num_files = 0,
           di_num_folders = 0\<rparr>])]"
  using load_database_from_file_keeps_store
    [of example_database "''/home/user_1/fsearch.db''"]
  by (simp add: example_database_def get_database_info_def get_include_manager_def
      get_exclude_manager_def get_num_database_files_def get_num_database_folders_def)

end
